theory Spec2Isabelle
  imports Main "HOL-Library.Word"
begin

section \<open>JavaScript values\<close>

text \<open>
  The validator of \<^verbatim>\<open>src/shared/validate.js\<close> inspects a configuration that was parsed from
  YAML: a tree of plain objects, arrays, strings, numbers, booleans and null. A property that
  is not there reads as \<^verbatim>\<open>undefined\<close>. The values of the model:
  \<^item> an object is the list of its own enumerable properties in the order \<^verbatim>\<open>Object.keys\<close> lists
    them; its keys are distinct, its prototype is \<^verbatim>\<open>Object.prototype\<close>, and no value is a function;
  \<^item> a number is an integer from \<open>- 2 ^ 53\<close> to \<open>2 ^ 53 - 1\<close>, read from a 54-bit word with
    \<open>sint\<close>: the integers that a JavaScript number holds exactly and prints as their decimal
    numeral. Fractions, larger numbers, NaN and dates are not values of the model;
  \<^item> a string is a list of UTF-16 code units below 256, one \<open>char\<close> each, so that \<open>length\<close> is
    JavaScript's \<^verbatim>\<open>length\<close>.
\<close>

datatype jsval =
    JUndefined
  | JNull
  | JBool bool
  | JNum "54 word"
  | JStr string
  | JArr "jsval list"
  | JObj "(string \<times> jsval) list"

type_synonym obj = "(string \<times> jsval) list"

text \<open>
  What JavaScript throws: \<^verbatim>\<open>new Error(message)\<close> of the source, or the engine's TypeError
  (with the message text of V8).
\<close>

datatype exn = Error string | TypeError string

fun message :: "exn \<Rightarrow> string" where
  "message (Error m) = m"
| "message (TypeError m) = m"

text \<open>ToBoolean, as \<^verbatim>\<open>!x\<close>, \<^verbatim>\<open>x || y\<close> and \<^verbatim>\<open>if (x)\<close> apply it.\<close>

fun truthy :: "jsval \<Rightarrow> bool" where
  "truthy JUndefined = False"
| "truthy JNull = False"
| "truthy (JBool b) = b"
| "truthy (JNum n) = (n \<noteq> 0)"
| "truthy (JStr s) = (s \<noteq> [])"
| "truthy (JArr xs) = True"
| "truthy (JObj kvs) = True"

fun typeof :: "jsval \<Rightarrow> string" where
  "typeof JUndefined = ''undefined''"
| "typeof JNull = ''object''"
| "typeof (JBool b) = ''boolean''"
| "typeof (JNum n) = ''number''"
| "typeof (JStr s) = ''string''"
| "typeof (JArr xs) = ''object''"
| "typeof (JObj kvs) = ''object''"

fun digit_char :: "nat \<Rightarrow> char" where
  "digit_char n = char_of (48 + n)"

text \<open>The decimal numeral of a natural number, without leading zeros.\<close>

fun dec :: "nat \<Rightarrow> string" where
  "dec n = (if n < 10 then [digit_char n] else dec (n div 10) @ [digit_char (n mod 10)])"

declare dec.simps [simp del]

text \<open>\<^verbatim>\<open>Array.prototype.join\<close> on an array of strings.\<close>

fun join :: "string \<Rightarrow> string list \<Rightarrow> string" where
  "join sep [] = []"
| "join sep [x] = x"
| "join sep (x # y # ys) = x @ sep @ join sep (y # ys)"

text \<open>The results of a list of steps, or what the first failing step threw.\<close>

fun collect :: "(exn + 'a) list \<Rightarrow> exn + 'a list" where
  "collect [] = Inr []"
| "collect (Inl e # rs) = Inl e"
| "collect (Inr x # rs) = (case collect rs of Inl e \<Rightarrow> Inl e | Inr xs \<Rightarrow> Inr (x # xs))"

text \<open>
  ToString, as a template literal \<^verbatim>\<open>`${x}`\<close>, a property key \<^verbatim>\<open>o[x]\<close> and
  \<^verbatim>\<open>RegExp.prototype.test\<close> apply it. An array prints its elements from left to right,
  separated by commas, null and undefined elements as the empty text. A plain object prints
  as \<^verbatim>\<open>[object Object]\<close> through the \<^verbatim>\<open>toString\<close> it inherits; when it has a property
  \<^verbatim>\<open>toString\<close> of its own, which is no function, neither that nor \<^verbatim>\<open>valueOf\<close> gives a
  primitive value and the conversion throws.
\<close>

fun to_string :: "jsval \<Rightarrow> exn + string" where
  "to_string JUndefined = Inr ''undefined''"
| "to_string JNull = Inr ''null''"
| "to_string (JBool b) = Inr (if b then ''true'' else ''false'')"
| "to_string (JNum n) =
     Inr (if sint n < 0 then ''-'' @ dec (nat (- sint n)) else dec (nat (sint n)))"
| "to_string (JStr s) = Inr s"
| "to_string (JArr xs) =
     (case collect (map (\<lambda>x. if x = JUndefined \<or> x = JNull then Inr [] else to_string x) xs) of
        Inl e \<Rightarrow> Inl e
      | Inr texts \<Rightarrow> Inr (join '','' texts))"
| "to_string (JObj kvs) =
     (if ''toString'' \<in> set (map fst kvs)
      then Inl (TypeError ''Cannot convert object to primitive value'')
      else Inr ''[object Object]'')"

text \<open>
  \<^verbatim>\<open>o.k\<close> on an object, for the names the validator reads (\<^verbatim>\<open>rate\<close>, \<^verbatim>\<open>runtime\<close>,
  \<^verbatim>\<open>handler\<close>, \<^verbatim>\<open>events\<close>, \<^verbatim>\<open>schedule\<close>): none of them is defined by a prototype, so the
  value is the own property or undefined.
\<close>

definition obj_get :: "obj \<Rightarrow> string \<Rightarrow> jsval" where
  "obj_get kvs k = (case map_of kvs k of None \<Rightarrow> JUndefined | Some v \<Rightarrow> v)"

text \<open>\<^verbatim>\<open>o.k = v\<close>: an own property keeps its place, a new one goes last.\<close>

fun set_prop :: "obj \<Rightarrow> string \<Rightarrow> jsval \<Rightarrow> obj" where
  "set_prop [] k v = [(k, v)]"
| "set_prop ((k', v') # kvs) k v =
     (if k' = k then (k, v) # kvs else (k', v') # set_prop kvs k v)"

text \<open>
  \<^verbatim>\<open>x.k\<close> on any value, for the same names: a primitive or an array has no such property,
  and reading a property of null or undefined throws.
\<close>

fun get_prop :: "jsval \<Rightarrow> string \<Rightarrow> jsval" where
  "get_prop (JObj kvs) k = obj_get kvs k"
| "get_prop v k = JUndefined"

fun read_prop :: "jsval \<Rightarrow> string \<Rightarrow> exn + jsval" where
  "read_prop JUndefined k =
     Inl (TypeError (''Cannot read properties of undefined (reading '' @ [CHR 0x27] @ k @ [CHR 0x27] @ '')''))"
| "read_prop JNull k =
     Inl (TypeError (''Cannot read properties of null (reading '' @ [CHR 0x27] @ k @ [CHR 0x27] @ '')''))"
| "read_prop v k = Inr (get_prop v k)"

text \<open>\<^verbatim>\<open>Object.keys\<close>: the indices of a string or an array, nothing for a number or a boolean.\<close>

fun object_keys :: "jsval \<Rightarrow> exn + string list" where
  "object_keys JUndefined = Inl (TypeError ''Cannot convert undefined or null to object'')"
| "object_keys JNull = Inl (TypeError ''Cannot convert undefined or null to object'')"
| "object_keys (JBool b) = Inr []"
| "object_keys (JNum n) = Inr []"
| "object_keys (JStr s) = Inr (map dec [0..<length s])"
| "object_keys (JArr xs) = Inr (map dec [0..<length xs])"
| "object_keys (JObj kvs) = Inr (map fst kvs)"

text \<open>
  The entries \<^verbatim>\<open>Object.keys(o).forEach((k) => ... o[k] ...)\<close> walks, for a value whose
  \<^verbatim>\<open>typeof\<close> is \<^verbatim>\<open>'object'\<close> and that is not null: the keys are distinct, so reading each
  key of \<^verbatim>\<open>Object.keys\<close> walks the entries in order.
\<close>

fun own_entries :: "jsval \<Rightarrow> (string \<times> jsval) list" where
  "own_entries (JObj kvs) = kvs"
| "own_entries (JArr xs) = zip (map dec [0..<length xs]) xs"
| "own_entries v = []"

text \<open>\<^verbatim>\<open>String.prototype.split\<close> with a one-character separator.\<close>

fun split_on :: "char \<Rightarrow> string \<Rightarrow> string list" where
  "split_on c [] = [[]]"
| "split_on c (x # xs) =
     (if x = c then [] # split_on c xs
      else (case split_on c xs of [] \<Rightarrow> [[x]] | y # ys \<Rightarrow> (x # y) # ys))"

section \<open>Regular expressions\<close>

text \<open>
  The fragment of JavaScript's regular expressions that \<^verbatim>\<open>cronScheduleRegex\<close> is written
  in: a character, a class \<^verbatim>\<open>[a-b]\<close>, concatenation and alternation. \<open>rmatch r s\<close> lists
  what is left of \<open>s\<close> after each way \<open>r\<close> matches a prefix of it, in the order a
  backtracking matcher tries them. Between \<^verbatim>\<open>^\<close> and \<^verbatim>\<open>$\<close> (no flag), \<^verbatim>\<open>test\<close> holds when
  some way leaves nothing.
\<close>

datatype regex = Lit char | Range char char | Seq regex regex | Alt regex regex

fun rmatch :: "regex \<Rightarrow> string \<Rightarrow> string list" where
  "rmatch (Lit c) s = (case s of [] \<Rightarrow> [] | x # xs \<Rightarrow> if x = c then [xs] else [])"
| "rmatch (Range a b) s =
     (case s of [] \<Rightarrow> []
      | x # xs \<Rightarrow>
          if (of_char a :: nat) \<le> of_char x \<and> (of_char x :: nat) \<le> of_char b then [xs] else [])"
| "rmatch (Seq r1 r2) s = concat (map (rmatch r2) (rmatch r1 s))"
| "rmatch (Alt r1 r2) s = rmatch r1 s @ rmatch r2 s"

definition regex_test :: "regex \<Rightarrow> string \<Rightarrow> bool" where
  "regex_test r s \<longleftrightarrow> [] \<in> set (rmatch r s)"

text \<open>\<^verbatim>\<open>regex.test(x)\<close> on any value: the value is converted to its text first.\<close>

definition js_test :: "regex \<Rightarrow> jsval \<Rightarrow> exn + bool" where
  "js_test r x = (case to_string x of Inl e \<Rightarrow> Inl e | Inr text \<Rightarrow> Inr (regex_test r text))"

text \<open>\<^verbatim>\<open>t[a-b]\<close>: the character \<open>t\<close>, then one of \<open>a\<close> to \<open>b\<close>.\<close>

definition two :: "char \<Rightarrow> char \<Rightarrow> char \<Rightarrow> regex" where
  "two t a b = Seq (Lit t) (Range a b)"

text \<open>\<^verbatim>\<open>(\*|(num)|\*\/(num))\<close>: one field of the schedule.\<close>

definition field_re :: "regex \<Rightarrow> regex" where
  "field_re num = Alt (Lit CHR ''*'') (Alt num (Seq (Seq (Lit CHR ''*'') (Lit CHR ''/'')) num))"

text \<open>\<^verbatim>\<open>[0-9]|1[0-9]|2[0-9]|3[0-9]|4[0-9]|5[0-9]\<close>\<close>

definition minute_re :: regex where
  "minute_re =
     Alt (Range CHR ''0'' CHR ''9'') (Alt (two CHR ''1'' CHR ''0'' CHR ''9'')
    (Alt (two CHR ''2'' CHR ''0'' CHR ''9'') (Alt (two CHR ''3'' CHR ''0'' CHR ''9'')
    (Alt (two CHR ''4'' CHR ''0'' CHR ''9'') (two CHR ''5'' CHR ''0'' CHR ''9'')))))"

text \<open>\<^verbatim>\<open>[0-9]|1[0-9]|2[0-3]\<close>\<close>

definition hour_re :: regex where
  "hour_re =
     Alt (Range CHR ''0'' CHR ''9'') (Alt (two CHR ''1'' CHR ''0'' CHR ''9'')
       (two CHR ''2'' CHR ''0'' CHR ''3''))"

text \<open>\<^verbatim>\<open>[1-9]|1[0-9]|2[0-9]|3[0-1]\<close>\<close>

definition day_re :: regex where
  "day_re =
     Alt (Range CHR ''1'' CHR ''9'') (Alt (two CHR ''1'' CHR ''0'' CHR ''9'')
    (Alt (two CHR ''2'' CHR ''0'' CHR ''9'') (two CHR ''3'' CHR ''0'' CHR ''1'')))"

text \<open>\<^verbatim>\<open>[1-9]|1[0-2]\<close>\<close>

definition month_re :: regex where
  "month_re = Alt (Range CHR ''1'' CHR ''9'') (two CHR ''1'' CHR ''0'' CHR ''2'')"

text \<open>\<^verbatim>\<open>[0-6]\<close>\<close>

definition weekday_re :: regex where
  "weekday_re = Range CHR ''0'' CHR ''6''"

text \<open>The five fields, one space between two of them.\<close>

definition cronScheduleRegex :: regex where
  "cronScheduleRegex =
     Seq (field_re minute_re) (Seq (Lit CHR '' '')
    (Seq (field_re hour_re) (Seq (Lit CHR '' '')
    (Seq (field_re day_re) (Seq (Lit CHR '' '')
    (Seq (field_re month_re) (Seq (Lit CHR '' '')
         (field_re weekday_re))))))))"

section \<open>The tables of the validator\<close>

text \<open>\<^verbatim>\<open>RUNTIMES_EXTENSIONS\<close>: the own properties of the object literal, in its order.\<close>

definition RUNTIMES_EXTENSIONS :: "(string \<times> string list) list" where
  "RUNTIMES_EXTENSIONS =
     [(''node8'', [''ts'', ''js'']),
      (''node10'', [''ts'', ''js'']),
      (''node14'', [''ts'', ''js'']),
      (''python'', [''py'']),
      (''python3'', [''py'']),
      (''golang'', [''go''])]"

text \<open>
  \<^verbatim>\<open>RUNTIMES_EXTENSIONS\<close> is an object literal, so \<^verbatim>\<open>RUNTIMES_EXTENSIONS[key]\<close> reads a
  key the literal does not own from \<^verbatim>\<open>Object.prototype\<close>. Its members are functions, each
  with its \<^verbatim>\<open>length\<close> (the number of declared parameters, fixed by the language standard),
  and \<^verbatim>\<open>__proto__\<close>, which reads as the prototype object itself and has no \<^verbatim>\<open>length\<close>.
\<close>

definition Object_prototype :: "(string \<times> nat option) list" where
  "Object_prototype =
     [(''constructor'', Some 1),
      (''__defineGetter__'', Some 2),
      (''__defineSetter__'', Some 2),
      (''hasOwnProperty'', Some 1),
      (''__lookupGetter__'', Some 1),
      (''__lookupSetter__'', Some 1),
      (''isPrototypeOf'', Some 1),
      (''propertyIsEnumerable'', Some 1),
      (''toString'', Some 0),
      (''valueOf'', Some 0),
      (''__proto__'', None),
      (''toLocaleString'', Some 0)]"

text \<open>
  What \<^verbatim>\<open>const extensions = RUNTIMES_EXTENSIONS[runtime]\<close> binds, for the property key that
  is the text of \<^verbatim>\<open>runtime\<close>: an extension list of the table, a member inherited from
  \<^verbatim>\<open>Object.prototype\<close> (with its \<^verbatim>\<open>length\<close>, if it has one), or undefined.
\<close>

datatype extensions = ExtList "string list" | Inherited "nat option" | NoExtensions

definition lookup_extensions :: "string \<Rightarrow> extensions" where
  "lookup_extensions key =
     (case map_of RUNTIMES_EXTENSIONS key of
        Some exts \<Rightarrow> ExtList exts
      | None \<Rightarrow>
          (case map_of Object_prototype key of
             Some len \<Rightarrow> Inherited len
           | None \<Rightarrow> NoExtensions))"

text \<open>\<^verbatim>\<open>!extensions\<close>: only undefined is falsy; an array, a function and an object are truthy.\<close>

fun no_extensions :: "extensions \<Rightarrow> bool" where
  "no_extensions NoExtensions = True"
| "no_extensions e = False"

text \<open>
  The texts \<^verbatim>\<open>`${extension}`\<close> of \<^verbatim>\<open>for (let i = 0; i < extensions.length; i += 1)\<close> with
  \<^verbatim>\<open>extension = extensions[i]\<close>: the list's elements; for a function, \<^verbatim>\<open>length\<close> times the
  text of undefined; nothing when \<^verbatim>\<open>length\<close> is undefined (the comparison is false);
  reading \<^verbatim>\<open>length\<close> of undefined throws.
\<close>

fun loop_extensions :: "extensions \<Rightarrow> exn + string list" where
  "loop_extensions (ExtList exts) = Inr exts"
| "loop_extensions (Inherited (Some n)) = Inr (replicate n ''undefined'')"
| "loop_extensions (Inherited None) = Inr []"
| "loop_extensions NoExtensions =
     Inl (TypeError (''Cannot read properties of undefined (reading '' @ [CHR 0x27] @ ''length'' @ [CHR 0x27] @ '')''))"

text \<open>
  \<^verbatim>\<open>TRIGGERS_VALIDATION.schedule\<close>. Reading \<^verbatim>\<open>trigger.rate\<close> throws on null and undefined;
  \<^verbatim>\<open>||\<close> does not evaluate \<^verbatim>\<open>test\<close> for a falsy rate; \<^verbatim>\<open>test\<close> and the template literal
  of the message convert the rate to its text, which throws for some objects.
\<close>

definition schedule :: "jsval \<Rightarrow> exn + unit" where
  "schedule trigger =
     (case read_prop trigger ''rate'' of
        Inl e \<Rightarrow> Inl e
      | Inr rate \<Rightarrow>
          (case (if \<not> truthy rate then Inr True
                 else (case js_test cronScheduleRegex rate of
                         Inl e \<Rightarrow> Inl e
                       | Inr matches \<Rightarrow> Inr (\<not> matches))) of
             Inl e \<Rightarrow> Inl e
           | Inr invalid \<Rightarrow>
               if invalid
               then (case to_string rate of
                       Inl e \<Rightarrow> Inl e
                     | Inr text \<Rightarrow>
                         Inl (Error (''Trigger Schedule is invalid: '' @ text
                           @ '', schedule should be formatted like a UNIX-Compliant Cronjob, for example: ''
                           @ [CHR 0x27] @ ''1 * * * *'' @ [CHR 0x27])))
               else Inr ()))"

definition TRIGGERS_VALIDATION :: "(string \<times> (jsval \<Rightarrow> exn + unit)) list" where
  "TRIGGERS_VALIDATION = [(''schedule'', schedule)]"

section \<open>The validator\<close>

text \<open>
  The plugin object \<^verbatim>\<open>this\<close>, as far as the validator reads it:
  \<^verbatim>\<open>this.serverless.config.servicePath\<close>, \<^verbatim>\<open>this.provider.scwToken\<close>,
  \<^verbatim>\<open>this.provider.getScwProject()\<close>, \<^verbatim>\<open>this.serverless.service.provider.env\<close>,
  \<^verbatim>\<open>this.runtime\<close>, \<^verbatim>\<open>this.serverless.service.functions\<close> and
  \<^verbatim>\<open>this.serverless.service.custom\<close> with its \<^verbatim>\<open>containers\<close> (the last two as
  \<open>service_functions\<close> and \<open>service_custom\<close>). The two credentials are
  strings. \<^verbatim>\<open>functions\<close> and \<^verbatim>\<open>containers\<close> are undefined (\<open>None\<close>) or a mapping from a
  name to an object; \<^verbatim>\<open>custom\<close> is undefined (\<open>None\<close>) or an object, whose \<^verbatim>\<open>containers\<close>
  are read.
\<close>

record plugin =
  servicePath :: jsval
  scwToken :: string
  scwProject :: string
  env :: jsval
  runtime :: jsval
  service_functions :: "(string \<times> obj) list option"
  service_custom :: "(string \<times> obj) list option option"

text \<open>How the promise of \<^verbatim>\<open>validate\<close> fails: a step threw, or \<^verbatim>\<open>checkErrors\<close> rejected.\<close>

datatype failure = Thrown exn | Rejected "string list"

definition validateServicePath :: "plugin \<Rightarrow> exn + unit" where
  "validateServicePath p =
     (if \<not> truthy (servicePath p)
      then Inl (Error ''This command can only be run inside a service directory'')
      else Inr ())"

definition validateCredentials :: "plugin \<Rightarrow> exn + unit" where
  \<open>validateCredentials p =
     (if length (scwToken p) \<noteq> 36 \<or> length (scwProject p) \<noteq> 36
      then Inl (Error (''Either "scwToken" or "scwProject" is invalid.''
             @ '' Credentials to deploy on your Scaleway Account are required, please read the documentation.''))
      else Inr ())\<close>

definition checkErrors :: "string list option \<Rightarrow> failure + unit" where
  "checkErrors errors =
     (case errors of
        None \<Rightarrow> Inr ()
      | Some es \<Rightarrow> if length es = 0 then Inr () else Inl (Rejected es))"

text \<open>The body of the \<^verbatim>\<open>forEach\<close> of \<^verbatim>\<open>validateEnv\<close>, on the entry of one variable.\<close>

definition envCheck :: "string list \<Rightarrow> string \<times> jsval \<Rightarrow> string list" where
  "envCheck errors entry =
     (case entry of (variableName, variable) \<Rightarrow>
        if typeof variable \<noteq> ''string''
        then errors @ [''Variable '' @ variableName
               @ '': variable is invalid, environment variables may only be strings'']
        else errors)"

definition validateEnv :: "jsval \<Rightarrow> exn + string list" where
  "validateEnv variables =
     (if \<not> truthy variables then Inr []
      else if typeof variables \<noteq> ''object''
      then Inl (Error ''Environment variables should be a map of strings under the form: key - value'')
      else Inr (foldl envCheck [] (own_entries variables)))"

definition validateNamespace :: "plugin \<Rightarrow> string list option \<Rightarrow> exn + string list" where
  "validateNamespace p errors =
     (let currentErrors = (case errors of Some es \<Rightarrow> es | None \<Rightarrow> []) in
      case validateEnv (env p) of
        Inl e \<Rightarrow> Inl e
      | Inr namespaceErrors \<Rightarrow> Inr (currentErrors @ namespaceErrors))"

text \<open>\<^verbatim>\<open>Array.prototype.reduce\<close> with a callback that may throw.\<close>

fun reduce :: "('b \<Rightarrow> 'a \<Rightarrow> exn + 'b) \<Rightarrow> 'a list \<Rightarrow> 'b \<Rightarrow> exn + 'b" where
  "reduce f [] acc = Inr acc"
| "reduce f (x # xs) acc = (case f acc x of Inl e \<Rightarrow> Inl e | Inr acc' \<Rightarrow> reduce f xs acc')"

text \<open>
  The callback of the \<^verbatim>\<open>reduce\<close> of \<^verbatim>\<open>validateTriggers\<close>. \<^verbatim>\<open>Object.keys\<close> stands outside
  the \<^verbatim>\<open>try\<close>; the call of the kind's validator stands inside, and what it throws is caught.
\<close>

definition triggerCheck :: "string list \<Rightarrow> jsval \<Rightarrow> exn + string list" where
  "triggerCheck accumulator trigger =
     (case object_keys trigger of
        Inl e \<Rightarrow> Inl e
      | Inr triggerKeys \<Rightarrow>
          if length triggerKeys \<noteq> 1
          then Inr (accumulator @
                 [''Trigger is invalid, it should contain at least one event type configuration (example: schedule).''])
          else
            let triggerName = hd triggerKeys;
                authorizedTriggers = map fst TRIGGERS_VALIDATION
            in if triggerName \<notin> set authorizedTriggers
               then Inr (accumulator @
                      [''Trigger Type '' @ triggerName
                       @ '' is not currently supported by Scaleway'' @ [CHR 0x27]
                       @ ''s Serverless platform, supported types are the following: ''
                       @ join '', '' authorizedTriggers])
               else
                 (case map_of TRIGGERS_VALIDATION triggerName of
                    None \<Rightarrow> Inr (accumulator @ [''TRIGGERS_VALIDATION[triggerName] is not a function''])
                  | Some validator \<Rightarrow>
                      (case read_prop trigger triggerName of
                         Inl error \<Rightarrow> Inr (accumulator @ [message error])
                       | Inr payload \<Rightarrow>
                           (case validator payload of
                              Inl error \<Rightarrow> Inr (accumulator @ [message error])
                            | Inr u \<Rightarrow> Inr accumulator))))"

text \<open>\<^verbatim>\<open>triggers.reduce(...)\<close>: only an array has \<^verbatim>\<open>reduce\<close>.\<close>

fun validateTriggers :: "jsval \<Rightarrow> exn + string list" where
  "validateTriggers (JArr triggers) = reduce triggerCheck triggers []"
| "validateTriggers JUndefined =
     Inl (TypeError (''Cannot read properties of undefined (reading '' @ [CHR 0x27] @ ''reduce'' @ [CHR 0x27] @ '')''))"
| "validateTriggers JNull =
     Inl (TypeError (''Cannot read properties of null (reading '' @ [CHR 0x27] @ ''reduce'' @ [CHR 0x27] @ '')''))"
| "validateTriggers v = Inl (TypeError ''triggers.reduce is not a function'')"

text \<open>
  The two messages of \<^verbatim>\<open>validateApplications\<close> that depend on the input. The runtime message
  is written twice in the source, both times with \<^verbatim>\<open>this.runtime\<close>. Each is a template
  literal, which throws when the value it prints has no text.
\<close>

definition runtimeError :: "jsval \<Rightarrow> exn + string" where
  "runtimeError thisRuntime =
     (case to_string thisRuntime of
        Inl e \<Rightarrow> Inl e
      | Inr text \<Rightarrow>
          Inr (''Runtime '' @ text
            @ '' is not supported. Function runtime must be one of the following: ''
            @ join '', '' (map fst RUNTIMES_EXTENSIONS)))"

definition handlerError :: "string \<Rightarrow> jsval \<Rightarrow> exn + string" where
  "handlerError functionName handler =
     (case to_string handler of
        Inl e \<Rightarrow> Inl e
      | Inr text \<Rightarrow>
          Inr (''Handler file defined for function '' @ functionName @ '' does not exist (''
            @ text @ '').''))"

text \<open>
  The file system, as \<^verbatim>\<open>fs.existsSync(path.resolve('./', handler))\<close> reads it: \<open>exists h\<close>
  tells whether the path \<open>h\<close>, resolved against the working directory, is there.

  The body of the \<^verbatim>\<open>try\<close> of the handler check. \<^verbatim>\<open>func.handler.split('.')\<close> throws
  unless the handler is a string. The loop has no \<^verbatim>\<open>break\<close>.
\<close>

fun handlerCheck :: "(string \<Rightarrow> bool) \<Rightarrow> extensions \<Rightarrow> string \<Rightarrow> jsval \<Rightarrow> exn + unit" where
  "handlerCheck exists extensions functionName (JStr handler) =
     (let splitHandlerPath = split_on CHR ''.'' handler in
      if length splitHandlerPath \<noteq> 2
      then Inl (Error (''Handler is malformatted for '' @ functionName
             @ '': handler should be path/to/file.functionInsideFile''))
      else
        let handlerPath = hd splitHandlerPath in
        (case loop_extensions extensions of
           Inl e \<Rightarrow> Inl e
         | Inr exts \<Rightarrow>
             let handlerFileExists =
                   foldl (\<lambda>found extension.
                            if exists (handlerPath @ ''.'' @ extension) then True else found)
                     False exts
             in if \<not> handlerFileExists then Inl (Error ''File does not exists'') else Inr ()))"
| "handlerCheck exists extensions functionName JUndefined =
     Inl (TypeError (''Cannot read properties of undefined (reading '' @ [CHR 0x27] @ ''split'' @ [CHR 0x27] @ '')''))"
| "handlerCheck exists extensions functionName JNull =
     Inl (TypeError (''Cannot read properties of null (reading '' @ [CHR 0x27] @ ''split'' @ [CHR 0x27] @ '')''))"
| "handlerCheck exists extensions functionName v =
     Inl (TypeError ''func.handler.split is not a function'')"

text \<open>
  The \<^verbatim>\<open>try\<close> with its \<^verbatim>\<open>catch\<close>: what the handler check pushes. The \<^verbatim>\<open>catch\<close> builds
  its message from \<^verbatim>\<open>func.handler\<close>, outside any \<^verbatim>\<open>try\<close>.
\<close>

definition handlerErrors ::
  "(string \<Rightarrow> bool) \<Rightarrow> extensions \<Rightarrow> string \<Rightarrow> obj \<Rightarrow> exn + string list" where
  "handlerErrors exists extensions functionName func =
     (case handlerCheck exists extensions functionName (obj_get func ''handler'') of
        Inl error \<Rightarrow>
          (case handlerError functionName (obj_get func ''handler'') of
             Inl e \<Rightarrow> Inl e
           | Inr msg \<Rightarrow> Inr [msg])
      | Inr u \<Rightarrow> Inr [])"

text \<open>
  \<^verbatim>\<open>if (func.runtime) { const extensions = RUNTIMES_EXTENSIONS[func.runtime]; ... }\<close>: what
  the check of the function's own runtime pushes. Its \<^verbatim>\<open>extensions\<close> lives in this block
  only. The property key is the text of \<^verbatim>\<open>func.runtime\<close>.
\<close>

definition runtimeErrors :: "jsval \<Rightarrow> obj \<Rightarrow> exn + string list" where
  "runtimeErrors thisRuntime func =
     (if truthy (obj_get func ''runtime'')
      then (case to_string (obj_get func ''runtime'') of
              Inl e \<Rightarrow> Inl e
            | Inr key \<Rightarrow>
                let extensions = lookup_extensions key in
                if no_extensions extensions
                then (case runtimeError thisRuntime of
                        Inl e \<Rightarrow> Inl e
                      | Inr msg \<Rightarrow> Inr [msg])
                else Inr [])
      else Inr [])"

text \<open>\<^verbatim>\<open>x.events = x.events || []\<close>\<close>

definition defaultEvents :: "obj \<Rightarrow> obj" where
  "defaultEvents x =
     set_prop x ''events''
       (if truthy (obj_get x ''events'') then obj_get x ''events'' else JArr [])"

text \<open>
  \<^verbatim>\<open>Object.keys(o).forEach(...)\<close> with a callback that takes the errors so far and one
  entry, may change the entry's object and may throw: the entries as they are afterwards,
  and the errors or what was thrown. After a throw the later entries are not visited.
\<close>

fun forEach :: "('e \<Rightarrow> 'a \<Rightarrow> 'a \<times> (exn + 'e)) \<Rightarrow> 'a list \<Rightarrow> 'e \<Rightarrow> 'a list \<times> (exn + 'e)" where
  "forEach f [] acc = ([], Inr acc)"
| "forEach f (x # xs) acc =
     (case f acc x of
        (x', Inl e) \<Rightarrow> (x' # xs, Inl e)
      | (x', Inr acc') \<Rightarrow> (case forEach f xs acc' of (xs', r) \<Rightarrow> (x' # xs', r)))"

text \<open>
  The callback of \<^verbatim>\<open>functionNames.forEach\<close>. \<open>extensions\<close> is the binding of the enclosing
  block, \<^verbatim>\<open>RUNTIMES_EXTENSIONS[this.runtime]\<close>. What the runtime check or the \<^verbatim>\<open>catch\<close> of
  the handler check throws leaves the callback before \<^verbatim>\<open>events\<close> is touched.
\<close>

definition functionCheck ::
  "(string \<Rightarrow> bool) \<Rightarrow> jsval \<Rightarrow> extensions \<Rightarrow> string list \<Rightarrow> string \<times> obj
     \<Rightarrow> (string \<times> obj) \<times> (exn + string list)" where
  "functionCheck exists thisRuntime extensions functionErrors entry =
     (case entry of (functionName, func) \<Rightarrow>
        if obj_get func ''runtime'' = JStr ''golang''
           \<or> (\<not> truthy (obj_get func ''runtime'') \<and> thisRuntime = JStr ''golang'')
        then ((functionName, func), Inr functionErrors)
        else
          (case runtimeErrors thisRuntime func of
             Inl e \<Rightarrow> ((functionName, func), Inl e)
           | Inr pushed1 \<Rightarrow>
               (case handlerErrors exists extensions functionName func of
                  Inl e \<Rightarrow> ((functionName, func), Inl e)
                | Inr pushed2 \<Rightarrow>
                    let func' = defaultEvents func in
                    (case validateTriggers (obj_get func' ''events'') of
                       Inl e \<Rightarrow> ((functionName, func'), Inl e)
                     | Inr triggerErrors \<Rightarrow>
                         ((functionName, func'),
                          Inr (functionErrors @ pushed1 @ pushed2 @ triggerErrors))))))"

text \<open>The callback of \<^verbatim>\<open>containerNames.forEach\<close>.\<close>

definition containerCheck ::
  "string list \<Rightarrow> string \<times> obj \<Rightarrow> (string \<times> obj) \<times> (exn + string list)" where
  "containerCheck functionErrors entry =
     (case entry of (containerName, container) \<Rightarrow>
        let container' = defaultEvents container in
        (case validateTriggers (obj_get container' ''events'') of
           Inl e \<Rightarrow> ((containerName, container'), Inl e)
         | Inr triggerErrors \<Rightarrow> ((containerName, container'), Inr (functionErrors @ triggerErrors))))"

text \<open>
  \<^verbatim>\<open>if (functions && Object.keys(functions).length !== 0) { ... }\<close>: the functions as they
  are afterwards, and \<^verbatim>\<open>functionErrors\<close> or what was thrown. The property key of
  \<^verbatim>\<open>RUNTIMES_EXTENSIONS[this.runtime]\<close> is the text of \<^verbatim>\<open>this.runtime\<close>.
\<close>

definition checkFunctions ::
  "(string \<Rightarrow> bool) \<Rightarrow> jsval \<Rightarrow> (string \<times> obj) list option
     \<Rightarrow> (string \<times> obj) list option \<times> (exn + string list)" where
  "checkFunctions exists thisRuntime fns =
     (case fns of
        None \<Rightarrow> (None, Inr [])
      | Some entries \<Rightarrow>
          if length entries \<noteq> 0
          then
            (case to_string thisRuntime of
               Inl e \<Rightarrow> (Some entries, Inl e)
             | Inr key \<Rightarrow>
                 let extensions = lookup_extensions key in
                 (case (if no_extensions extensions
                        then (case runtimeError thisRuntime of
                                Inl e \<Rightarrow> Inl e
                              | Inr msg \<Rightarrow> Inr [msg])
                        else Inr []) of
                    Inl e \<Rightarrow> (Some entries, Inl e)
                  | Inr functionErrors \<Rightarrow>
                      (case forEach (functionCheck exists thisRuntime extensions) entries
                              functionErrors of
                         (entries', r) \<Rightarrow> (Some entries', r))))
          else (Some entries, Inr []))"

text \<open>
  \<^verbatim>\<open>let containers = []; if (custom) { containers = custom.containers; }\<close> and
  \<^verbatim>\<open>if (containers && Object.keys(containers).length !== 0) { ... }\<close>
\<close>

definition checkContainers ::
  "(string \<times> obj) list option option \<Rightarrow> string list
     \<Rightarrow> (string \<times> obj) list option option \<times> (exn + string list)" where
  "checkContainers cust functionErrors =
     (case cust of
        None \<Rightarrow> (None, Inr functionErrors)
      | Some None \<Rightarrow> (Some None, Inr functionErrors)
      | Some (Some entries) \<Rightarrow>
          if length entries \<noteq> 0
          then (case forEach containerCheck entries functionErrors of
                  (entries', r) \<Rightarrow> (Some (Some entries'), r))
          else (Some (Some entries), Inr functionErrors))"

text \<open>\<^verbatim>\<open>functionNames\<close> and \<^verbatim>\<open>containerNames\<close>, which stay empty unless their block runs.\<close>

definition functionNames :: "plugin \<Rightarrow> string list" where
  "functionNames p = (case service_functions p of None \<Rightarrow> [] | Some entries \<Rightarrow> map fst entries)"

definition containerNames :: "plugin \<Rightarrow> string list" where
  "containerNames p =
     (case service_custom p of None \<Rightarrow> [] | Some None \<Rightarrow> [] | Some (Some entries) \<Rightarrow> map fst entries)"

text \<open>
  \<^verbatim>\<open>validateApplications(errors)\<close>: the plugin as it is afterwards, and the resolved error
  list or what was thrown.
\<close>

definition validateApplications ::
  "(string \<Rightarrow> bool) \<Rightarrow> plugin \<Rightarrow> string list option \<Rightarrow> plugin \<times> (exn + string list)" where
  "validateApplications exists p errors =
     (let currentErrors = (case errors of Some es \<Rightarrow> es | None \<Rightarrow> []) in
      case checkFunctions exists (runtime p) (service_functions p) of
        (functions', Inl e) \<Rightarrow> (p\<lparr>service_functions := functions'\<rparr>, Inl e)
      | (functions', Inr functionErrors) \<Rightarrow>
          (case checkContainers (service_custom p) functionErrors of
             (custom', Inl e) \<Rightarrow> (p\<lparr>service_functions := functions', service_custom := custom'\<rparr>, Inl e)
           | (custom', Inr functionErrors') \<Rightarrow>
               (p\<lparr>service_functions := functions', service_custom := custom'\<rparr>,
                Inr (currentErrors @
                  (if length (functionNames p) = 0 \<and> length (containerNames p) = 0
                   then functionErrors' @
                     [''You must define at least one function or container to deploy under the functions or custom key.'']
                   else functionErrors')))))"

text \<open>
  \<^verbatim>\<open>validate()\<close>: the chain of \<^verbatim>\<open>then\<close>. Each step gets what the step before returned:
  \<^verbatim>\<open>validateNamespace\<close> gets undefined, \<^verbatim>\<open>validateApplications\<close> and \<^verbatim>\<open>checkErrors\<close> get an
  error list. A step that throws ends the chain.
\<close>

definition validate :: "(string \<Rightarrow> bool) \<Rightarrow> plugin \<Rightarrow> plugin \<times> (failure + unit)" where
  "validate exists p =
     (case validateServicePath p of
        Inl e \<Rightarrow> (p, Inl (Thrown e))
      | Inr u \<Rightarrow>
     (case validateCredentials p of
        Inl e \<Rightarrow> (p, Inl (Thrown e))
      | Inr u \<Rightarrow>
     (case validateNamespace p None of
        Inl e \<Rightarrow> (p, Inl (Thrown e))
      | Inr errors \<Rightarrow>
     (case validateApplications exists p (Some errors) of
        (p', Inl e) \<Rightarrow> (p', Inl (Thrown e))
      | (p', Inr errors') \<Rightarrow> (p', checkErrors (Some errors'))))))"

section \<open>The specification's notions\<close>

text \<open>
  The cron grammar in the specification's words: five fields, one space between two of
  them; a field is \<^verbatim>\<open>*\<close>, a number of the field's range, or \<^verbatim>\<open>*/n\<close> with \<open>n\<close> a number of
  the field's range. A number is written as its decimal numeral, without leading zeros.
  The ranges are 0 to 59 for the minute, 0 to 23 for the hour, 1 to 31 for the day of the
  month, 1 to 12 for the month and 0 to 6 for the day of the week.
\<close>

definition cron_number :: "nat \<Rightarrow> nat \<Rightarrow> string \<Rightarrow> bool" where
  "cron_number lo hi s \<longleftrightarrow> s \<in> set (map dec [lo..<Suc hi])"

definition cron_field :: "nat \<Rightarrow> nat \<Rightarrow> string \<Rightarrow> bool" where
  "cron_field lo hi f \<longleftrightarrow>
     f = ''*'' \<or> cron_number lo hi f \<or> (take 2 f = ''*/'' \<and> cron_number lo hi (drop 2 f))"

definition cron_grammar :: "string \<Rightarrow> bool" where
  "cron_grammar s \<longleftrightarrow>
     (case split_on CHR '' '' s of
        [minute, hour, day, month, weekday] \<Rightarrow>
          cron_field 0 59 minute \<and> cron_field 0 23 hour \<and> cron_field 1 31 day
          \<and> cron_field 1 12 month \<and> cron_field 0 6 weekday
      | _ \<Rightarrow> False)"

text \<open>
  The strings a regular expression of this fragment matches as a whole, listed (the
  fragment has no repetition, so they are finitely many).
\<close>

fun enum :: "regex \<Rightarrow> string list" where
  "enum (Lit c) = [[c]]"
| "enum (Range a b) = map (\<lambda>n. [char_of n]) [of_char a ..< Suc (of_char b)]"
| "enum (Seq r1 r2) = concat (map (\<lambda>u. map ((@) u) (enum r2)) (enum r1))"
| "enum (Alt r1 r2) = enum r1 @ enum r2"

text \<open>
  What one trigger contributes, in the specification's words: the one-event-type error
  unless it has exactly one key; for a key that is not a registered kind (only
  \<^verbatim>\<open>schedule\<close> is), the error naming the kind and listing the supported kinds; for
  \<^verbatim>\<open>schedule\<close>, the message of the schedule validator's failure, if it fails; else nothing.
\<close>

definition trigger_errors :: "jsval \<Rightarrow> string list" where
  "trigger_errors trigger =
     (case object_keys trigger of
        Inl e \<Rightarrow> []
      | Inr [kind] \<Rightarrow>
          if kind = ''schedule''
          then (case schedule (get_prop trigger kind) of Inl e \<Rightarrow> [message e] | Inr u \<Rightarrow> [])
          else [''Trigger Type '' @ kind @ '' is not currently supported by Scaleway'' @ [CHR 0x27]
                @ ''s Serverless platform, supported types are the following: schedule'']
      | Inr keys \<Rightarrow>
          [''Trigger is invalid, it should contain at least one event type configuration (example: schedule).''])"

text \<open>
  Whether a value is a string, the error of \<^verbatim>\<open>validateEnv\<close> for a variable, and the errors
  of a list of entries: one for each entry whose value is not a string, in the list's order.
\<close>

definition is_string :: "jsval \<Rightarrow> bool" where
  "is_string v = (case v of JStr s \<Rightarrow> True | _ \<Rightarrow> False)"

definition env_error :: "string \<Rightarrow> string" where
  "env_error name = ''Variable '' @ name @ '': variable is invalid, environment variables may only be strings''"

definition env_errors :: "(string \<times> jsval) list \<Rightarrow> string list" where
  "env_errors entries = map (\<lambda>entry. env_error (fst entry)) (filter (\<lambda>entry. \<not> is_string (snd entry)) entries)"

text \<open>A configuration with zero functions, and one with zero containers.\<close>

definition no_functions :: "plugin \<Rightarrow> bool" where
  "no_functions p \<longleftrightarrow> service_functions p = None \<or> service_functions p = Some []"

definition no_containers :: "plugin \<Rightarrow> bool" where
  "no_containers p \<longleftrightarrow>
     service_custom p = None \<or> service_custom p = Some None \<or> service_custom p = Some (Some [])"

text \<open>A plugin with well-formed credentials and nothing to deploy, to build examples from.\<close>

definition sample_plugin :: plugin where
  "sample_plugin =
     \<lparr>servicePath = JStr ''/srv/app'',
      scwToken = ''0123456789abcdef0123456789abcdef0123'',
      scwProject = ''0123456789abcdef0123456789abcdef0123'',
      env = JUndefined,
      runtime = JStr ''node14'',
      service_functions = None,
      service_custom = None\<rparr>"

text \<open>
  A function's effective runtime is golang: its own runtime is \<^verbatim>\<open>'golang'\<close>, or it gives none
  (none that is truthy) and the service's default runtime is \<^verbatim>\<open>'golang'\<close>.
\<close>

definition effective_golang :: "jsval \<Rightarrow> obj \<Rightarrow> bool" where
  "effective_golang thisRuntime func \<longleftrightarrow>
     obj_get func ''runtime'' = JStr ''golang''
     \<or> (\<not> truthy (obj_get func ''runtime'') \<and> thisRuntime = JStr ''golang'')"

text \<open>
  What validation leaves of a function's entry and of a container's entry: \<^verbatim>\<open>events\<close> is
  defaulted, except on a function whose effective runtime is golang.
\<close>

definition normalized_function :: "jsval \<Rightarrow> string \<times> obj \<Rightarrow> string \<times> obj" where
  "normalized_function thisRuntime entry =
     (fst entry, if effective_golang thisRuntime (snd entry) then snd entry else defaultEvents (snd entry))"

definition normalized_container :: "string \<times> obj \<Rightarrow> string \<times> obj" where
  "normalized_container entry = (fst entry, defaultEvents (snd entry))"

text \<open>
  Examples: a service with three functions and a container, before and after validation,
  and a service with one golang function.
\<close>

definition sample_before :: plugin where
  "sample_before = sample_plugin
     \<lparr>service_functions := Some
        [(''web'', [(''handler'', JStr ''handler.handle'')]),
         (''job'', [(''runtime'', JStr ''golang'')]),
         (''cron'', [(''handler'', JStr ''handler.tick''),
                    (''events'', JArr [JObj [(''schedule'', JObj [(''rate'', JStr ''1 * * * *'')])]])])],
      service_custom := Some (Some [(''box'', [(''events'', JNull)])])\<rparr>"

definition sample_after :: plugin where
  "sample_after = sample_plugin
     \<lparr>service_functions := Some
        [(''web'', [(''handler'', JStr ''handler.handle''), (''events'', JArr [])]),
         (''job'', [(''runtime'', JStr ''golang'')]),
         (''cron'', [(''handler'', JStr ''handler.tick''),
                    (''events'', JArr [JObj [(''schedule'', JObj [(''rate'', JStr ''1 * * * *'')])]])])],
      service_custom := Some (Some [(''box'', [(''events'', JArr [])])])\<rparr>"

definition golang_plugin :: plugin where
  "golang_plugin = sample_plugin
     \<lparr>runtime := JStr ''golang'',
      service_functions := Some [(''main'', [(''handler'', JStr ''main.go'')])]\<rparr>"

section \<open>The schedule validator and the cron grammar\<close>

lemma range_iff:
  "((of_char a :: nat) \<le> of_char x \<and> (of_char x :: nat) \<le> of_char b)
     \<longleftrightarrow> x \<in> (\<lambda>n. char_of n) ` {of_char a ..< Suc (of_char b)}"
proof
  assume h: "(of_char a :: nat) \<le> of_char x \<and> (of_char x :: nat) \<le> of_char b"
  have "x = char_of (of_char x :: nat)" by simp
  with h show "x \<in> (\<lambda>n. char_of n) ` {of_char a ..< Suc (of_char b)}"
    by (metis atLeastLessThan_iff image_eqI less_Suc_eq_le)
next
  assume "x \<in> (\<lambda>n. char_of n) ` {of_char a ..< Suc (of_char b)}"
  then obtain n :: nat where n: "x = char_of n" "of_char a \<le> n" "n \<le> of_char b"
    by auto
  have "of_char b < (256::nat)" by (rule nat_of_char_less_256)
  with n have "n < 256" by (meson le_less_trans)
  then have "(of_char (char_of n :: char) :: nat) = n" by (simp add: of_char_of)
  with n show "(of_char a :: nat) \<le> of_char x \<and> (of_char x :: nat) \<le> of_char b" by simp
qed

lemma enum_Seq: "w \<in> set (enum (Seq r1 r2)) \<longleftrightarrow> (\<exists>u \<in> set (enum r1). \<exists>v \<in> set (enum r2). w = u @ v)"
  by auto

lemma rmatch_enum: "t \<in> set (rmatch r s) \<longleftrightarrow> (\<exists>u \<in> set (enum r). s = u @ t)"
proof (induction r arbitrary: s t)
  case (Lit c)
  show ?case by (cases s) auto
next
  case (Range a b)
  show ?case
  proof (cases s)
    case Nil
    then show ?thesis by auto
  next
    case (Cons x xs)
    have "set (enum (Range a b)) = (\<lambda>c. [c]) ` ((\<lambda>n. char_of n) ` {of_char a ..< Suc (of_char b)})"
      by (auto simp: image_image)
    then show ?thesis using Cons range_iff[of a x b] by auto
  qed
next
  case (Seq r1 r2)
  have "t \<in> set (rmatch (Seq r1 r2) s) \<longleftrightarrow>
        (\<exists>m. (\<exists>u \<in> set (enum r1). s = u @ m) \<and> (\<exists>v \<in> set (enum r2). m = v @ t))"
    using Seq by auto
  also have "\<dots> \<longleftrightarrow> (\<exists>u \<in> set (enum r1). \<exists>v \<in> set (enum r2). s = (u @ v) @ t)"
    by auto
  also have "\<dots> \<longleftrightarrow> (\<exists>w \<in> set (enum (Seq r1 r2)). s = w @ t)"
    by auto
  finally show ?case .
next
  case (Alt r1 r2)
  show ?case by (auto simp: Alt)
qed

lemma regex_test_enum: "regex_test r s \<longleftrightarrow> s \<in> set (enum r)"
  by (simp add: regex_test_def rmatch_enum)

lemma enum_minute: "enum minute_re = map dec [0..<Suc 59]"
  by code_simp

lemma enum_hour: "enum hour_re = map dec [0..<Suc 23]"
  by code_simp

lemma enum_day: "enum day_re = map dec [1..<Suc 31]"
  by code_simp

lemma enum_month: "enum month_re = map dec [1..<Suc 12]"
  by code_simp

lemma enum_weekday: "enum weekday_re = map dec [0..<Suc 6]"
  by code_simp

lemma field_re_iff:
  assumes "enum num = map dec [lo..<Suc hi]"
  shows "f \<in> set (enum (field_re num)) \<longleftrightarrow> cron_field lo hi f"
proof -
  have "(\<exists>n \<in> set (enum num). f = ''*/'' @ n) \<longleftrightarrow> (take 2 f = ''*/'' \<and> drop 2 f \<in> set (enum num))"
  proof
    assume "\<exists>n \<in> set (enum num). f = ''*/'' @ n"
    then show "take 2 f = ''*/'' \<and> drop 2 f \<in> set (enum num)" by auto
  next
    assume h: "take 2 f = ''*/'' \<and> drop 2 f \<in> set (enum num)"
    have "f = take 2 f @ drop 2 f" by simp
    with h show "\<exists>n \<in> set (enum num). f = ''*/'' @ n" by metis
  qed
  moreover have "f \<in> set (enum (field_re num)) \<longleftrightarrow>
      f = ''*'' \<or> f \<in> set (enum num) \<or> (\<exists>n \<in> set (enum num). f = ''*/'' @ n)"
    by (auto simp: field_re_def)
  ultimately show ?thesis
    by (simp add: cron_field_def cron_number_def assms)
qed

lemma digit_char_not_space: "n < 10 \<Longrightarrow> digit_char n \<noteq> CHR '' ''"
proof
  assume n: "n < 10" and "digit_char n = CHR '' ''"
  then have "(of_char (char_of (48 + n) :: char) :: nat) = of_char CHR '' ''" by simp
  then have "(48 + n) mod 256 = 32" by (simp add: of_char_of)
  with n show False by simp
qed

lemma dec_no_space: "CHR '' '' \<notin> set (dec n)"
proof (induction n rule: dec.induct)
  case (1 n)
  show ?case
  proof (cases "n < 10")
    case True
    then have "dec n = [digit_char n]" by (subst dec.simps) simp
    then show ?thesis using True digit_char_not_space[of n] by (simp del: digit_char.simps)
  next
    case False
    have "n mod 10 < 10" by simp
    then have "digit_char (n mod 10) \<noteq> CHR '' ''" by (rule digit_char_not_space)
    moreover have "dec n = dec (n div 10) @ [digit_char (n mod 10)]"
      using False by (subst dec.simps) simp
    ultimately show ?thesis using 1 False by (simp del: digit_char.simps)
  qed
qed

lemma cron_field_no_space: "cron_field lo hi f \<Longrightarrow> CHR '' '' \<notin> set f"
proof -
  assume "cron_field lo hi f"
  then consider "f = ''*''" | n where "f = dec n" | n where "take 2 f = ''*/''" "drop 2 f = dec n"
    by (auto simp: cron_field_def cron_number_def)
  then show ?thesis
  proof cases
    case 1
    then show ?thesis by simp
  next
    case 2
    then show ?thesis by (simp add: dec_no_space)
  next
    case 3
    have "f = take 2 f @ drop 2 f" by simp
    then have "f = ''*/'' @ dec n" using 3 by simp
    then have "set f = set ''*/'' \<union> set (dec n)" by (metis set_append)
    then show ?thesis using dec_no_space[of n] by simp
  qed
qed

lemma split_on_nonempty: "split_on c s \<noteq> []"
  by (induction s) (auto split: list.splits)

lemma split_on_no_sep: "c \<notin> set a \<Longrightarrow> split_on c a = [a]"
  by (induction a) auto

lemma split_on_append: "c \<notin> set a \<Longrightarrow> split_on c (a @ c # rest) = a # split_on c rest"
  by (induction a) auto

lemma join_split: "join [c] (split_on c s) = s"
proof (induction s)
  case Nil
  show ?case by simp
next
  case (Cons x xs)
  obtain y ys where y: "split_on c xs = y # ys"
    using split_on_nonempty[of c xs] by (cases "split_on c xs") auto
  show ?case
  proof (cases "x = c")
    case True
    then show ?thesis using Cons y by simp
  next
    case False
    then show ?thesis using Cons y by (cases ys) auto
  qed
qed


lemma enum_Seq_Lit:
  "w \<in> set (enum (Seq r (Seq (Lit x) r'))) \<longleftrightarrow>
     (\<exists>u. u \<in> set (enum r) \<and> (\<exists>v. v \<in> set (enum r') \<and> w = u @ x # v))"
  by auto

lemma enum_five:
  "s \<in> set (enum (Seq A (Seq (Lit x) (Seq B (Seq (Lit x) (Seq C (Seq (Lit x)
        (Seq D (Seq (Lit x) E))))))))) \<longleftrightarrow>
     (\<exists>a b c d e. s = a @ x # b @ x # c @ x # d @ x # e
        \<and> a \<in> set (enum A) \<and> b \<in> set (enum B) \<and> c \<in> set (enum C)
        \<and> d \<in> set (enum D) \<and> e \<in> set (enum E))"
  unfolding enum_Seq_Lit by blast

lemma cron_regex_iff:
  "s \<in> set (enum cronScheduleRegex) \<longleftrightarrow>
     (\<exists>a b c d e. s = a @ CHR '' '' # b @ CHR '' '' # c @ CHR '' '' # d @ CHR '' '' # e
        \<and> cron_field 0 59 a \<and> cron_field 0 23 b \<and> cron_field 1 31 c
        \<and> cron_field 1 12 d \<and> cron_field 0 6 e)"
  unfolding cronScheduleRegex_def enum_five
  by (simp only: field_re_iff[OF enum_minute] field_re_iff[OF enum_hour] field_re_iff[OF enum_day]
      field_re_iff[OF enum_month] field_re_iff[OF enum_weekday])


lemma split_five:
  assumes "CHR '' '' \<notin> set a" "CHR '' '' \<notin> set b" "CHR '' '' \<notin> set c"
    "CHR '' '' \<notin> set d" "CHR '' '' \<notin> set e"
  shows "split_on CHR '' '' (a @ CHR '' '' # b @ CHR '' '' # c @ CHR '' '' # d @ CHR '' '' # e)
           = [a, b, c, d, e]"
  using assms by (simp add: split_on_append split_on_no_sep)

lemma cron_grammar_iff:
  "cron_grammar s \<longleftrightarrow>
     (\<exists>a b c d e. s = a @ CHR '' '' # b @ CHR '' '' # c @ CHR '' '' # d @ CHR '' '' # e
        \<and> cron_field 0 59 a \<and> cron_field 0 23 b \<and> cron_field 1 31 c
        \<and> cron_field 1 12 d \<and> cron_field 0 6 e)"
proof
  assume "cron_grammar s"
  then obtain a b c d e where sp: "split_on CHR '' '' s = [a, b, c, d, e]"
    and f: "cron_field 0 59 a" "cron_field 0 23 b" "cron_field 1 31 c"
      "cron_field 1 12 d" "cron_field 0 6 e"
    by (auto simp: cron_grammar_def split: list.splits)
  have "s = join [CHR '' ''] (split_on CHR '' '' s)" by (simp add: join_split)
  then have "s = a @ CHR '' '' # b @ CHR '' '' # c @ CHR '' '' # d @ CHR '' '' # e"
    by (simp add: sp)
  with f show "\<exists>a b c d e. s = a @ CHR '' '' # b @ CHR '' '' # c @ CHR '' '' # d @ CHR '' '' # e
        \<and> cron_field 0 59 a \<and> cron_field 0 23 b \<and> cron_field 1 31 c
        \<and> cron_field 1 12 d \<and> cron_field 0 6 e" by blast
next
  assume "\<exists>a b c d e. s = a @ CHR '' '' # b @ CHR '' '' # c @ CHR '' '' # d @ CHR '' '' # e
        \<and> cron_field 0 59 a \<and> cron_field 0 23 b \<and> cron_field 1 31 c
        \<and> cron_field 1 12 d \<and> cron_field 0 6 e"
  then obtain a b c d e where s: "s = a @ CHR '' '' # b @ CHR '' '' # c @ CHR '' '' # d @ CHR '' '' # e"
    and f: "cron_field 0 59 a" "cron_field 0 23 b" "cron_field 1 31 c"
      "cron_field 1 12 d" "cron_field 0 6 e"
    by blast
  have "split_on CHR '' '' s = [a, b, c, d, e]"
    unfolding s by (rule split_five) (rule cron_field_no_space, rule f)+
  with f show "cron_grammar s" by (simp add: cron_grammar_def)
qed

lemma cron_regex_grammar: "regex_test cronScheduleRegex s \<longleftrightarrow> cron_grammar s"
  by (simp only: regex_test_enum cron_regex_iff cron_grammar_iff)

text \<open>
  What the schedule validator returns for a payload that has properties: when the text of
  its \<^verbatim>\<open>rate\<close> matches the cron grammar it accepts; when the text does not match, or there
  is no \<^verbatim>\<open>rate\<close> (the text of undefined), it fails with the message that holds the text and
  the usage example; when the rate has no text, the conversion's TypeError is what it throws.
\<close>

lemma falsy_text: "\<not> truthy v \<Longrightarrow> \<exists>text. to_string v = Inr text \<and> \<not> cron_grammar text"
proof (cases v)
  case JUndefined
  have "\<not> cron_grammar ''undefined''" by code_simp
  then show ?thesis using JUndefined by simp
next
  case JNull
  have "\<not> cron_grammar ''null''" by code_simp
  then show ?thesis using JNull by simp
next
  case (JBool b)
  assume "\<not> truthy v"
  moreover have "\<not> cron_grammar ''false''" by code_simp
  ultimately show ?thesis using JBool by simp
next
  case (JNum n)
  assume "\<not> truthy v"
  moreover have "\<not> cron_grammar (dec 0)" by code_simp
  ultimately show ?thesis using JNum by simp
next
  case (JStr s)
  assume "\<not> truthy v"
  moreover have "\<not> cron_grammar []" by code_simp
  ultimately show ?thesis using JStr by simp
next
  case (JArr xs)
  assume "\<not> truthy v"
  then show ?thesis using JArr by simp
next
  case (JObj kvs)
  assume "\<not> truthy v"
  then show ?thesis using JObj by simp
qed

lemma read_prop_get:
  "x \<noteq> JNull \<Longrightarrow> x \<noteq> JUndefined \<Longrightarrow> read_prop x k = Inr (get_prop x k)"
  by (cases x) simp_all

lemma schedule_characterisation:
  assumes "payload \<noteq> JNull" and "payload \<noteq> JUndefined"
  shows "schedule payload =
    (case to_string (get_prop payload ''rate'') of
       Inl e \<Rightarrow> Inl e
     | Inr text \<Rightarrow>
         if cron_grammar text then Inr ()
         else Inl (Error (''Trigger Schedule is invalid: '' @ text
           @ '', schedule should be formatted like a UNIX-Compliant Cronjob, for example: ''
           @ [CHR 0x27] @ ''1 * * * *'' @ [CHR 0x27])))"
proof -
  have r: "read_prop payload ''rate'' = Inr (get_prop payload ''rate'')"
    using assms by (rule read_prop_get)
  show ?thesis
  proof (cases "truthy (get_prop payload ''rate'')")
    case True
    then show ?thesis
      by (simp add: schedule_def r js_test_def cron_regex_grammar split: sum.splits)
  next
    case False
    then obtain rt where "to_string (get_prop payload ''rate'') = Inr rt" "\<not> cron_grammar rt"
      using falsy_text by blast
    then show ?thesis using False by (simp add: schedule_def r)
  qed
qed

lemma schedule_string_rate:
  "schedule (JObj kvs) = Inr () \<longleftrightarrow>
     (\<exists>text. to_string (obj_get kvs ''rate'') = Inr text \<and> cron_grammar text)"
  using schedule_characterisation [of "JObj kvs"]
  by (auto split: sum.splits if_splits)

text \<open>
  Claim C1, where the code departs from it. A payload that is null (YAML \<^verbatim>\<open>- schedule:\<close>) has
  no \<^verbatim>\<open>rate\<close>, but reading \<^verbatim>\<open>trigger.rate\<close> throws before the check of the missing rate is
  reached: the error that \<^verbatim>\<open>validateTriggers\<close> reports is the engine's TypeError message,
  which holds neither a rate nor the usage example. The same happens for a \<^verbatim>\<open>rate\<close> that
  cannot be converted to a text.
\<close>

theorem null_payload_error_has_no_rate:
  "schedule JNull =
     Inl (TypeError (''Cannot read properties of null (reading '' @ [CHR 0x27] @ ''rate'' @ [CHR 0x27] @ '')''))
   \<and> validateTriggers (JArr [JObj [(''schedule'', JNull)]]) =
     Inr [''Cannot read properties of null (reading '' @ [CHR 0x27] @ ''rate'' @ [CHR 0x27] @ '')'']
   \<and> validateTriggers (JArr [JObj [(''schedule'', JObj [(''rate'', JObj [(''toString'', JStr ''x'')])])]]) =
     Inr [''Cannot convert object to primitive value'']"
  by code_simp

section \<open>Trigger validation\<close>

lemma object_keys_Inr: "t \<noteq> JNull \<Longrightarrow> t \<noteq> JUndefined \<Longrightarrow> \<exists>ks. object_keys t = Inr ks"
  by (cases t) simp_all

lemma triggerCheck_errors:
  assumes "t \<noteq> JNull" and "t \<noteq> JUndefined"
  shows "triggerCheck acc t = Inr (acc @ trigger_errors t)"
proof -
  obtain ks where ks: "object_keys t = Inr ks"
    using object_keys_Inr[OF assms] by blast
  show ?thesis
  proof (cases "length ks = 1")
    case False
    then have "trigger_errors t =
      [''Trigger is invalid, it should contain at least one event type configuration (example: schedule).'']"
      by (cases ks; cases "tl ks") (simp_all add: trigger_errors_def ks)
    then show ?thesis using False by (simp add: triggerCheck_def ks)
  next
    case True
    then obtain kind where k: "ks = [kind]" by (cases ks) auto
    show ?thesis
    proof (cases "kind = ''schedule''")
      case True
      then show ?thesis
        by (simp add: triggerCheck_def trigger_errors_def ks k TRIGGERS_VALIDATION_def
            read_prop_get[OF assms] split: sum.splits)
    next
      case False
      then show ?thesis
        by (simp add: triggerCheck_def trigger_errors_def ks k TRIGGERS_VALIDATION_def)
    qed
  qed
qed

lemma reduce_triggerCheck:
  "\<forall>t \<in> set ts. t \<noteq> JNull \<and> t \<noteq> JUndefined \<Longrightarrow>
     reduce triggerCheck ts acc = Inr (acc @ concat (map trigger_errors ts))"
proof (induction ts arbitrary: acc)
  case Nil
  show ?case by simp
next
  case (Cons t ts)
  then have "triggerCheck acc t = Inr (acc @ trigger_errors t)"
    by (simp add: triggerCheck_errors)
  then show ?case using Cons by simp
qed

text \<open>
  For a sequence of triggers none of which is null or undefined, \<^verbatim>\<open>validateTriggers\<close> returns
  the concatenation, in the sequence's order, of what each trigger contributes. With a
  trigger that is null or undefined in it, \<^verbatim>\<open>validateTriggers\<close> throws.
\<close>

lemma validateTriggers_errors:
  assumes "\<forall>t \<in> set triggers. t \<noteq> JNull \<and> t \<noteq> JUndefined"
  shows "validateTriggers (JArr triggers) = Inr (concat (map trigger_errors triggers))"
  using reduce_triggerCheck[OF assms, of "[]"] by simp

lemma triggerCheck_null:
  "t = JNull \<or> t = JUndefined \<Longrightarrow>
     triggerCheck acc t = Inl (TypeError ''Cannot convert undefined or null to object'')"
  by (auto simp: triggerCheck_def)

lemma reduce_triggerCheck_null:
  "\<exists>t \<in> set ts. t = JNull \<or> t = JUndefined \<Longrightarrow>
     reduce triggerCheck ts acc = Inl (TypeError ''Cannot convert undefined or null to object'')"
proof (induction ts arbitrary: acc)
  case Nil
  then show ?case by simp
next
  case (Cons t ts)
  show ?case
  proof (cases "t = JNull \<or> t = JUndefined")
    case True
    then show ?thesis by (simp add: triggerCheck_null)
  next
    case False
    then have "triggerCheck acc t = Inr (acc @ trigger_errors t)"
      by (simp add: triggerCheck_errors)
    moreover have "\<exists>t \<in> set ts. t = JNull \<or> t = JUndefined"
      using Cons.prems False by auto
    ultimately show ?thesis using Cons.IH by simp
  qed
qed

lemma validateTriggers_null:
  "\<exists>t \<in> set triggers. t = JNull \<or> t = JUndefined \<Longrightarrow>
     validateTriggers (JArr triggers) = Inl (TypeError ''Cannot convert undefined or null to object'')"
  by (simp add: reduce_triggerCheck_null)

text \<open>
  Claim C2, where the code departs from it. \<^verbatim>\<open>Object.keys(trigger)\<close> stands outside the
  \<^verbatim>\<open>try\<close>: a trigger that is null (an empty item of the YAML sequence) has no key, but
  instead of the one-event-type error its TypeError leaves \<^verbatim>\<open>validateTriggers\<close>, the errors
  collected so far are lost, and \<^verbatim>\<open>validate\<close> fails with the TypeError, not with the list.
\<close>

theorem null_trigger_is_thrown_not_reported:
  "validateTriggers (JArr [JObj [(''http'', JObj [])], JNull]) =
     Inl (TypeError ''Cannot convert undefined or null to object'')
   \<and> validate (\<lambda>h. h = ''handler.js'')
        (sample_plugin\<lparr>service_functions := Some
           [(''first'', [(''handler'', JStr ''handler.handle''),
                        (''events'', JArr [JObj [(''http'', JObj [])], JNull])])]\<rparr>) =
       (sample_plugin\<lparr>service_functions := Some
           [(''first'', [(''handler'', JStr ''handler.handle''),
                        (''events'', JArr [JObj [(''http'', JObj [])], JNull])])]\<rparr>,
        Inl (Thrown (TypeError ''Cannot convert undefined or null to object'')))"
  by code_simp

section \<open>Environment variables\<close>

lemma typeof_string: "typeof v = ''string'' \<longleftrightarrow> is_string v"
  by (cases v) (simp_all add: is_string_def)

lemma foldl_envCheck: "foldl envCheck acc entries = acc @ env_errors entries"
  by (induction entries arbitrary: acc)
    (auto simp: envCheck_def env_errors_def env_error_def typeof_string)

text \<open>
  Claim C7, as amended. \<^verbatim>\<open>validateEnv\<close> returns an empty error list for an absent or
  otherwise falsy input (undefined, null, false, 0, the empty string); it throws for a
  truthy input that is not an object (true, a number other than 0, a non-empty string);
  for a mapping it returns exactly one error \<^verbatim>\<open>Variable <name>: variable is invalid,
  environment variables may only be strings\<close> for each entry whose value is not a string,
  in the mapping's order, and none for the others; an array is taken as the mapping from
  its indices to its elements.
\<close>

theorem validateEnv_errors:
  "validateEnv JUndefined = Inr [] \<and> validateEnv JNull = Inr []
   \<and> validateEnv (JBool False) = Inr [] \<and> validateEnv (JNum 0) = Inr [] \<and> validateEnv (JStr []) = Inr []
   \<and> validateEnv (JBool True) =
        Inl (Error ''Environment variables should be a map of strings under the form: key - value'')
   \<and> (n \<noteq> 0 \<longrightarrow> validateEnv (JNum n) =
        Inl (Error ''Environment variables should be a map of strings under the form: key - value''))
   \<and> (s \<noteq> [] \<longrightarrow> validateEnv (JStr s) =
        Inl (Error ''Environment variables should be a map of strings under the form: key - value''))
   \<and> validateEnv (JObj kvs) = Inr (env_errors kvs)
   \<and> validateEnv (JArr xs) = Inr (env_errors (zip (map dec [0..<length xs]) xs))"
  by (simp add: validateEnv_def foldl_envCheck)

theorem validateEnv_errors_witness:
  "validateEnv (JNum 5) =
     Inl (Error ''Environment variables should be a map of strings under the form: key - value'')
   \<and> validateEnv (JStr ''KEY=value'') =
     Inl (Error ''Environment variables should be a map of strings under the form: key - value'')
   \<and> validateEnv (JObj [(''KEY'', JStr ''value''), (''COUNT'', JNum 5), (''A'', JStr []), (''FLAG'', JBool True)]) =
     Inr [''Variable COUNT: variable is invalid, environment variables may only be strings'',
          ''Variable FLAG: variable is invalid, environment variables may only be strings'']"
  using validateEnv_errors [of 5 "''KEY=value''"
      "[(''KEY'', JStr ''value''), (''COUNT'', JNum 5), (''A'', JStr []), (''FLAG'', JBool True)]" "[]"]
  by (simp add: env_errors_def env_error_def is_string_def)

text \<open>
  Against claim C7 as stated: false, 0 and an array are not mappings, and \<^verbatim>\<open>validateEnv\<close>
  does not throw for them.
\<close>

theorem validateEnv_falsy_counterexample:
  "validateEnv (JBool False) = Inr [] \<and> validateEnv (JNum 0) = Inr []
   \<and> validateEnv (JArr [JStr ''a'', JNum 5]) =
       Inr [''Variable 1: variable is invalid, environment variables may only be strings'']"
  by code_simp

section \<open>Credentials and the final verdict\<close>

text \<open>
  Claim C6. The credential check throws if and only if the token's length or the project
  identifier's length is not 36, whatever the characters; inside a service directory this
  ends \<^verbatim>\<open>validate\<close> with the thrown error, and nothing is aggregated. When the two checks
  pass and the namespace and applications phases return their error lists, \<^verbatim>\<open>validate\<close>
  succeeds if the collected list is empty and otherwise rejects with the whole list, which
  starts with the namespace errors.
\<close>

theorem credentials_and_final_verdict:
  "(validateCredentials p = Inr ()) = (length (scwToken p) = 36 \<and> length (scwProject p) = 36)
   \<and> ((\<exists>e. validateCredentials p = Inl e) = (length (scwToken p) \<noteq> 36 \<or> length (scwProject p) \<noteq> 36))
   \<and> (truthy (servicePath p) \<and> validateCredentials p = Inl e \<longrightarrow>
         validate exists p = (p, Inl (Thrown e)))
   \<and> (truthy (servicePath p) \<and> validateCredentials p = Inr ()
        \<and> validateNamespace p None = Inr namespaceErrors
        \<and> validateApplications exists p (Some namespaceErrors) = (p', Inr errors) \<longrightarrow>
         validate exists p = (p', if errors = [] then Inr () else Inl (Rejected errors))
         \<and> (\<exists>applicationErrors. errors = namespaceErrors @ applicationErrors))"
proof -
  have a: "(validateCredentials p = Inr ()) = (length (scwToken p) = 36 \<and> length (scwProject p) = 36)"
    by (simp add: validateCredentials_def)
  have b: "(\<exists>e. validateCredentials p = Inl e) = (length (scwToken p) \<noteq> 36 \<or> length (scwProject p) \<noteq> 36)"
    by (simp add: validateCredentials_def)
  have c: "truthy (servicePath p) \<and> validateCredentials p = Inl e \<longrightarrow>
         validate exists p = (p, Inl (Thrown e))"
    by (simp add: validate_def validateServicePath_def)
  have d: "truthy (servicePath p) \<and> validateCredentials p = Inr ()
        \<and> validateNamespace p None = Inr namespaceErrors
        \<and> validateApplications exists p (Some namespaceErrors) = (p', Inr errors) \<longrightarrow>
         validate exists p = (p', if errors = [] then Inr () else Inl (Rejected errors))
         \<and> (\<exists>applicationErrors. errors = namespaceErrors @ applicationErrors)"
  proof (intro impI conjI)
    assume h: "truthy (servicePath p) \<and> validateCredentials p = Inr ()
        \<and> validateNamespace p None = Inr namespaceErrors
        \<and> validateApplications exists p (Some namespaceErrors) = (p', Inr errors)"
    then show "validate exists p = (p', if errors = [] then Inr () else Inl (Rejected errors))"
      by (simp add: validate_def validateServicePath_def checkErrors_def)
    from h have "validateApplications exists p (Some namespaceErrors) = (p', Inr errors)" by simp
    then show "\<exists>applicationErrors. errors = namespaceErrors @ applicationErrors"
      by (auto simp: validateApplications_def Let_def split: prod.splits sum.splits if_splits)
  qed
  from a b c d show ?thesis by blast
qed

theorem credentials_and_final_verdict_witness:
  "validate (\<lambda>h. False) (sample_plugin\<lparr>scwToken := ''too short''\<rparr>) =
     (sample_plugin\<lparr>scwToken := ''too short''\<rparr>,
      Inl (Thrown (Error (''Either '' @ [CHR 0x22] @ ''scwToken'' @ [CHR 0x22] @ '' or '' @ [CHR 0x22]
        @ ''scwProject'' @ [CHR 0x22] @ '' is invalid.''
        @ '' Credentials to deploy on your Scaleway Account are required, please read the documentation.''))))
   \<and> validate (\<lambda>h. False) sample_plugin =
     (sample_plugin, Inl (Rejected
        [''You must define at least one function or container to deploy under the functions or custom key.'']))"
proof -
  let ?bad = "sample_plugin\<lparr>scwToken := ''too short''\<rparr>"
  let ?e = "Error (''Either '' @ [CHR 0x22] @ ''scwToken'' @ [CHR 0x22] @ '' or '' @ [CHR 0x22]
        @ ''scwProject'' @ [CHR 0x22] @ '' is invalid.''
        @ '' Credentials to deploy on your Scaleway Account are required, please read the documentation.'')"
  have 1: "truthy (servicePath ?bad) \<and> validateCredentials ?bad = Inl ?e"
    by (simp add: sample_plugin_def validateCredentials_def)
  have 2: "truthy (servicePath sample_plugin) \<and> validateCredentials sample_plugin = Inr ()
        \<and> validateNamespace sample_plugin None = Inr []
        \<and> validateApplications (\<lambda>h. False) sample_plugin (Some []) = (sample_plugin, Inr
             [''You must define at least one function or container to deploy under the functions or custom key.''])"
    by (simp add: sample_plugin_def validateCredentials_def validateNamespace_def validateEnv_def
        validateApplications_def checkFunctions_def checkContainers_def functionNames_def
        containerNames_def)
  from 1 credentials_and_final_verdict [of ?bad ?e "\<lambda>h. False"]
  have a: "validate (\<lambda>h. False) ?bad = (?bad, Inl (Thrown ?e))" by blast
  from 2 credentials_and_final_verdict [of sample_plugin _ "\<lambda>h. False" "[]" sample_plugin
      "[''You must define at least one function or container to deploy under the functions or custom key.'']"]
  have b: "validate (\<lambda>h. False) sample_plugin = (sample_plugin, Inl (Rejected
        [''You must define at least one function or container to deploy under the functions or custom key.'']))"
    by simp
  from a b show ?thesis by blast
qed

section \<open>Nothing to deploy\<close>

text \<open>
  Claim C8. For every configuration with zero functions (none, or an empty mapping) and zero
  containers (no custom section, no containers in it, or an empty mapping),
  \<^verbatim>\<open>validateApplications\<close> adds exactly one error to the errors it was given, the
  at-least-one-function-or-container message, whatever the default runtime is, and leaves
  the configuration as it was.
\<close>

theorem no_applications_one_error:
  assumes "no_functions p" and "no_containers p"
  shows "validateApplications exists p errors =
    (p, Inr ((case errors of Some es \<Rightarrow> es | None \<Rightarrow> []) @
       [''You must define at least one function or container to deploy under the functions or custom key.'']))"
proof -
  have f: "checkFunctions exists (runtime p) (service_functions p) = (service_functions p, Inr [])"
    using assms(1) by (auto simp: no_functions_def checkFunctions_def)
  have c: "checkContainers (service_custom p) [] = (service_custom p, Inr [])"
    using assms(2) by (auto simp: no_containers_def checkContainers_def)
  have n: "functionNames p = []" "containerNames p = []"
    using assms by (auto simp: no_functions_def no_containers_def functionNames_def containerNames_def)
  show ?thesis
    by (simp add: validateApplications_def f c n)
qed


theorem no_applications_one_error_witness:
  "validateApplications (\<lambda>h. True) (sample_plugin\<lparr>runtime := JStr ''cobol'', service_functions := Some []\<rparr>)
       (Some [''Variable COUNT: variable is invalid, environment variables may only be strings'']) =
     (sample_plugin\<lparr>runtime := JStr ''cobol'', service_functions := Some []\<rparr>,
      Inr [''Variable COUNT: variable is invalid, environment variables may only be strings'',
           ''You must define at least one function or container to deploy under the functions or custom key.''])"
proof -
  let ?p = "sample_plugin\<lparr>runtime := JStr ''cobol'', service_functions := Some []\<rparr>"
  have f: "no_functions ?p" by (simp add: no_functions_def)
  have c: "no_containers ?p" by (simp add: no_containers_def sample_plugin_def)
  show ?thesis
    using no_applications_one_error [OF f c, of "\<lambda>h. True"
        "Some [''Variable COUNT: variable is invalid, environment variables may only be strings'']"]
    by simp
qed

section \<open>The per-function checks\<close>

lemma functionCheck_golang:
  "effective_golang rt func \<Longrightarrow>
     functionCheck exists rt extensions errs (name, func) = ((name, func), Inr errs)"
  by (auto simp: functionCheck_def effective_golang_def)

lemma functionCheck_other:
  "\<not> effective_golang rt func \<Longrightarrow>
     functionCheck exists rt extensions errs (name, func) =
       (case runtimeErrors rt func of
          Inl e \<Rightarrow> ((name, func), Inl e)
        | Inr pushed1 \<Rightarrow>
            (case handlerErrors exists extensions name func of
               Inl e \<Rightarrow> ((name, func), Inl e)
             | Inr pushed2 \<Rightarrow>
                 ((name, defaultEvents func),
                  case validateTriggers (obj_get (defaultEvents func) ''events'') of
                    Inl e \<Rightarrow> Inl e
                  | Inr triggerErrors \<Rightarrow> Inr (errs @ pushed1 @ pushed2 @ triggerErrors))))"
  by (auto simp: functionCheck_def effective_golang_def Let_def split: sum.splits)

lemma probe_foldl:
  "foldl (\<lambda>found extension. if exists (p @ ''.'' @ extension) then True else found) b exts
     = (b \<or> (\<exists>ext \<in> set exts. exists (p @ ''.'' @ ext)))"
  by (induction exts arbitrary: b) auto

lemma handlerErrors_string:
  "obj_get func ''handler'' = JStr h \<Longrightarrow>
     handlerErrors exists extensions name func =
       Inr (if handlerCheck exists extensions name (JStr h) = Inr () then []
            else [''Handler file defined for function '' @ name @ '' does not exist ('' @ h @ '').''])"
  by (simp add: handlerErrors_def handlerError_def split: sum.splits)

text \<open>
  Claim C3. For every function with a handler string: when the handler does not split at its
  dots into exactly two segments, the handler check fails whatever the file system holds (and
  whatever \<^verbatim>\<open>extensions\<close> is bound to); when it splits into \<open>filePath\<close> and a symbol, the check
  against an extension list of the table succeeds if and only if for some extension of the
  list the file \<open>filePath.ext\<close> exists; a failure of the check is caught and becomes exactly
  one error, which names the function and the handler string as declared; nothing is thrown
  by the handler check, and the function's checks go on with the triggers.
\<close>

theorem handler_check_two_segments_and_file:
  "(length (split_on CHR ''.'' h) \<noteq> 2 \<longrightarrow>
      (\<exists>e. handlerCheck exists extensions name (JStr h) = Inl e))
   \<and> (split_on CHR ''.'' h = [filePath, symbol] \<longrightarrow>
      (handlerCheck exists (ExtList exts) name (JStr h) = Inr ())
        = (\<exists>ext \<in> set exts. exists (filePath @ ''.'' @ ext)))
   \<and> (obj_get func ''handler'' = JStr h \<longrightarrow>
      handlerErrors exists extensions name func =
        Inr (if handlerCheck exists extensions name (JStr h) = Inr () then []
             else [''Handler file defined for function '' @ name @ '' does not exist ('' @ h @ '').'']))
   \<and> (obj_get func ''handler'' = JStr h \<and> \<not> effective_golang rt func \<longrightarrow>
      snd (functionCheck exists rt extensions errs (name, func)) =
        (case runtimeErrors rt func of
           Inl e \<Rightarrow> Inl e
         | Inr runtimeErrs \<Rightarrow>
             (case validateTriggers (obj_get (defaultEvents func) ''events'') of
                Inl e \<Rightarrow> Inl e
              | Inr triggerErrors \<Rightarrow>
                  Inr (errs @ runtimeErrs
                       @ (if handlerCheck exists extensions name (JStr h) = Inr () then []
                          else [''Handler file defined for function '' @ name
                                @ '' does not exist ('' @ h @ '').''])
                       @ triggerErrors))))"
proof (intro conjI)
  show "length (split_on CHR ''.'' h) \<noteq> 2 \<longrightarrow>
      (\<exists>e. handlerCheck exists extensions name (JStr h) = Inl e)"
    by simp
  show "split_on CHR ''.'' h = [filePath, symbol] \<longrightarrow>
      (handlerCheck exists (ExtList exts) name (JStr h) = Inr ())
        = (\<exists>ext \<in> set exts. exists (filePath @ ''.'' @ ext))"
    using probe_foldl [of exists filePath False exts] by simp
  show "obj_get func ''handler'' = JStr h \<longrightarrow>
      handlerErrors exists extensions name func =
        Inr (if handlerCheck exists extensions name (JStr h) = Inr () then []
             else [''Handler file defined for function '' @ name @ '' does not exist ('' @ h @ '').''])"
    using handlerErrors_string by blast
  show "obj_get func ''handler'' = JStr h \<and> \<not> effective_golang rt func \<longrightarrow>
      snd (functionCheck exists rt extensions errs (name, func)) =
        (case runtimeErrors rt func of
           Inl e \<Rightarrow> Inl e
         | Inr runtimeErrs \<Rightarrow>
             (case validateTriggers (obj_get (defaultEvents func) ''events'') of
                Inl e \<Rightarrow> Inl e
              | Inr triggerErrors \<Rightarrow>
                  Inr (errs @ runtimeErrs
                       @ (if handlerCheck exists extensions name (JStr h) = Inr () then []
                          else [''Handler file defined for function '' @ name
                                @ '' does not exist ('' @ h @ '').''])
                       @ triggerErrors)))"
  proof
    assume a: "obj_get func ''handler'' = JStr h \<and> \<not> effective_golang rt func"
    then have g: "\<not> effective_golang rt func" and s: "obj_get func ''handler'' = JStr h"
      by simp_all
    show "snd (functionCheck exists rt extensions errs (name, func)) =
        (case runtimeErrors rt func of
           Inl e \<Rightarrow> Inl e
         | Inr runtimeErrs \<Rightarrow>
             (case validateTriggers (obj_get (defaultEvents func) ''events'') of
                Inl e \<Rightarrow> Inl e
              | Inr triggerErrors \<Rightarrow>
                  Inr (errs @ runtimeErrs
                       @ (if handlerCheck exists extensions name (JStr h) = Inr () then []
                          else [''Handler file defined for function '' @ name
                                @ '' does not exist ('' @ h @ '').''])
                       @ triggerErrors)))"
      unfolding functionCheck_other [OF g] handlerErrors_string [OF s]
      by (simp split: sum.splits)
  qed
qed

theorem handler_check_two_segments_and_file_witness:
  "handlerCheck (\<lambda>h. True) (ExtList [''js'', ''ts'']) ''first'' (JStr ''path.to.file.handler'') =
      Inl (Error ''Handler is malformatted for first: handler should be path/to/file.functionInsideFile'')
   \<and> handlerCheck (\<lambda>h. h = ''path/to/file.ts'') (ExtList [''js'', ''ts'']) ''first'' (JStr ''path/to/file.handler'')
       = Inr ()
   \<and> handlerCheck (\<lambda>h. h = ''path/to/file.py'') (ExtList [''js'', ''ts'']) ''first'' (JStr ''path/to/file.handler'')
       \<noteq> Inr ()
   \<and> handlerErrors (\<lambda>h. h = ''path/to/file.py'') (ExtList [''js'', ''ts'']) ''first''
        [(''handler'', JStr ''path/to/file.handler'')] =
      Inr [''Handler file defined for function first does not exist (path/to/file.handler).'']"
proof -
  have s3: "split_on CHR ''.'' ''path.to.file.handler'' = [''path'', ''to'', ''file'', ''handler'']"
    by code_simp
  have s2: "split_on CHR ''.'' ''path/to/file.handler'' = [''path/to/file'', ''handler'']"
    by code_simp
  have g: "obj_get [(''handler'', JStr ''path/to/file.handler'')] ''handler'' = JStr ''path/to/file.handler''"
    by (simp add: obj_get_def)
  note t1 = handler_check_two_segments_and_file
    [where h = "''path.to.file.handler''" and exists = "\<lambda>h. True"
       and extensions = "ExtList [''js'', ''ts'']" and name = "''first''"]
  note t2 = handler_check_two_segments_and_file
    [where h = "''path/to/file.handler''" and exists = "\<lambda>h. h = ''path/to/file.ts''"
       and name = "''first''" and filePath = "''path/to/file''" and symbol = "''handler''"
       and exts = "[''js'', ''ts'']"]
  note t3 = handler_check_two_segments_and_file
    [where h = "''path/to/file.handler''" and exists = "\<lambda>h. h = ''path/to/file.py''"
       and extensions = "ExtList [''js'', ''ts'']" and name = "''first''"
       and filePath = "''path/to/file''" and symbol = "''handler''" and exts = "[''js'', ''ts'']"
       and func = "[(''handler'', JStr ''path/to/file.handler'')]"]
  have 1: "handlerCheck (\<lambda>h. True) (ExtList [''js'', ''ts'']) ''first'' (JStr ''path.to.file.handler'') =
      Inl (Error ''Handler is malformatted for first: handler should be path/to/file.functionInsideFile'')"
    using t1 s3 by simp
  have 2: "handlerCheck (\<lambda>h. h = ''path/to/file.ts'') (ExtList [''js'', ''ts'']) ''first'' (JStr ''path/to/file.handler'')
       = Inr ()"
    using t2 s2 by simp
  have 3: "handlerCheck (\<lambda>h. h = ''path/to/file.py'') (ExtList [''js'', ''ts'']) ''first'' (JStr ''path/to/file.handler'')
       \<noteq> Inr ()"
    using t3 s2 by simp
  have 4: "handlerErrors (\<lambda>h. h = ''path/to/file.py'') (ExtList [''js'', ''ts'']) ''first''
        [(''handler'', JStr ''path/to/file.handler'')] =
      Inr [''Handler file defined for function first does not exist (path/to/file.handler).'']"
    using t3 3 g by simp
  from 1 2 3 4 show ?thesis by blast
qed

lemma snd_forEach_Cons:
  "snd (forEach f (x # xs) acc) =
     (case snd (f acc x) of Inl e \<Rightarrow> Inl e | Inr acc' \<Rightarrow> snd (forEach f xs acc'))"
  by (simp split: prod.splits sum.splits)

lemma forEach_golang_skipped:
  "snd (forEach (functionCheck exists rt extensions) entries errs) =
   snd (forEach (functionCheck exists rt extensions)
          (filter (\<lambda>entry. \<not> effective_golang rt (snd entry)) entries) errs)"
proof (induction entries arbitrary: errs)
  case Nil
  show ?case by simp
next
  case (Cons entry entries)
  obtain name func where e: "entry = (name, func)" by (cases entry)
  show ?case
  proof (cases "effective_golang rt func")
    case True
    then show ?thesis
      using Cons [of errs] by (simp add: e functionCheck_golang snd_forEach_Cons del: forEach.simps)
  next
    case False
    then show ?thesis
      using Cons
      by (simp add: e snd_forEach_Cons del: forEach.simps split: sum.splits)
  qed
qed

text \<open>
  Claim C4. For every function whose effective runtime is golang, the callback returns at
  once: the errors are as they were and the function is as it was, whatever its handler and
  its events are, so no runtime, handler or trigger error is produced for it. The errors of
  a whole run are those of the run over the other functions.
\<close>

theorem golang_function_skips_all_checks:
  "(effective_golang rt func \<longrightarrow>
      functionCheck exists rt extensions errs (name, func) = ((name, func), Inr errs))
   \<and> snd (forEach (functionCheck exists rt extensions) entries errs) =
     snd (forEach (functionCheck exists rt extensions)
          (filter (\<lambda>entry. \<not> effective_golang rt (snd entry)) entries) errs)"
  using functionCheck_golang forEach_golang_skipped by blast

theorem golang_function_skips_all_checks_witness:
  "functionCheck (\<lambda>h. False) (JStr ''node14'') (ExtList [''ts'', ''js''])
       [''Variable COUNT: variable is invalid, environment variables may only be strings'']
       (''compiled'', [(''runtime'', JStr ''golang''), (''handler'', JStr ''not.a.valid.handler''),
                      (''events'', JStr ''nonsense'')]) =
     ((''compiled'', [(''runtime'', JStr ''golang''), (''handler'', JStr ''not.a.valid.handler''),
                      (''events'', JStr ''nonsense'')]),
      Inr [''Variable COUNT: variable is invalid, environment variables may only be strings''])
   \<and> functionCheck (\<lambda>h. False) (JStr ''golang'') (ExtList [''go'']) [] (''main'', [(''handler'', JNum 3)]) =
     ((''main'', [(''handler'', JNum 3)]), Inr [])"
proof -
  have 1: "effective_golang (JStr ''node14'') [(''runtime'', JStr ''golang''),
             (''handler'', JStr ''not.a.valid.handler''), (''events'', JStr ''nonsense'')]"
    by (simp add: effective_golang_def obj_get_def)
  have 2: "effective_golang (JStr ''golang'') [(''handler'', JNum 3)]"
    by (simp add: effective_golang_def obj_get_def)
  note a = golang_function_skips_all_checks [where rt = "JStr ''node14''" and entries = "[]"
        and func = "[(''runtime'', JStr ''golang''), (''handler'', JStr ''not.a.valid.handler''),
                      (''events'', JStr ''nonsense'')]", THEN conjunct1, THEN mp, OF 1]
  note b = golang_function_skips_all_checks [where rt = "JStr ''golang''" and entries = "[]"
        and func = "[(''handler'', JNum 3)]", THEN conjunct1, THEN mp, OF 2]
  show ?thesis
    by (rule conjI) (rule a, rule b)
qed

section \<open>What validation changes\<close>

lemma set_prop_same: "map_of kvs k = Some v \<Longrightarrow> set_prop kvs k v = kvs"
  by (induction kvs) (auto split: if_splits)

lemma obj_get_set_prop: "obj_get (set_prop kvs k v) k = v"
  by (induction kvs) (auto simp: obj_get_def)

lemma defaultEvents_truthy: "truthy (obj_get x ''events'') \<Longrightarrow> defaultEvents x = x"
proof -
  assume t: "truthy (obj_get x ''events'')"
  then obtain v where "map_of x ''events'' = Some v" "obj_get x ''events'' = v"
    by (cases "map_of x ''events''") (auto simp: obj_get_def)
  then show ?thesis using t by (simp add: defaultEvents_def set_prop_same)
qed

lemma fst_functionCheck:
  "fst (functionCheck exists rt extensions errs entry) = entry
   \<or> fst (functionCheck exists rt extensions errs entry) = normalized_function rt entry"
  by (cases entry; cases "effective_golang rt (snd entry)")
    (auto simp: normalized_function_def functionCheck_golang functionCheck_other split: sum.splits)

lemma fst_functionCheck_done:
  "snd (functionCheck exists rt extensions errs entry) = Inr es \<Longrightarrow>
     fst (functionCheck exists rt extensions errs entry) = normalized_function rt entry"
  by (cases entry; cases "effective_golang rt (snd entry)")
    (auto simp: normalized_function_def functionCheck_golang functionCheck_other split: sum.splits)

lemma fst_containerCheck: "fst (containerCheck errs entry) = normalized_container entry"
  by (cases entry) (auto simp: normalized_container_def containerCheck_def Let_def split: sum.splits)

lemma fst_forEach_Cons:
  "fst (forEach f (x # xs) acc) =
     fst (f acc x) # (case snd (f acc x) of Inl e \<Rightarrow> xs | Inr acc' \<Rightarrow> fst (forEach f xs acc'))"
  by (simp split: prod.splits sum.splits)

lemma list_all2_same: "list_all2 (\<lambda>a b. b = a \<or> P a b) xs xs"
  by (induction xs) auto

lemma forEach_frame:
  assumes "\<And>acc x. fst (f acc x) = x \<or> fst (f acc x) = g x"
  shows "list_all2 (\<lambda>a b. b = a \<or> b = g a) xs (fst (forEach f xs acc))"
proof (induction xs arbitrary: acc)
  case Nil
  show ?case by simp
next
  case (Cons x xs)
  show ?case
    using Cons list_all2_same [of "\<lambda>a b. b = g a" xs] assms [of acc x]
    by (auto simp: fst_forEach_Cons simp del: forEach.simps split: sum.splits)
qed

lemma forEach_done:
  assumes "\<And>acc x es. snd (f acc x) = Inr es \<Longrightarrow> fst (f acc x) = g x"
  shows "snd (forEach f xs acc) = Inr es \<Longrightarrow> fst (forEach f xs acc) = map g xs"
proof (induction xs arbitrary: acc)
  case Nil
  show ?case by simp
next
  case (Cons x xs)
  then show ?case
    using assms [of acc x]
    by (auto simp: fst_forEach_Cons snd_forEach_Cons simp del: forEach.simps split: sum.splits)
qed

lemma checkFunctions_Some:
  "(entries = [] \<and> checkFunctions exists rt (Some entries) = (Some entries, Inr []))
   \<or> (\<exists>e. checkFunctions exists rt (Some entries) = (Some entries, Inl e))
   \<or> (\<exists>extensions acc. checkFunctions exists rt (Some entries) =
         (Some (fst (forEach (functionCheck exists rt extensions) entries acc)),
          snd (forEach (functionCheck exists rt extensions) entries acc)))"
proof (cases "length entries \<noteq> 0")
  case False
  then show ?thesis by (simp add: checkFunctions_def)
next
  case True
  note nonempty = this
  show ?thesis
  proof (cases "to_string rt")
    case (Inl e)
    then have "checkFunctions exists rt (Some entries) = (Some entries, Inl e)"
      using nonempty by (simp add: checkFunctions_def)
    then show ?thesis by blast
  next
    case (Inr key)
    note key = this
    let ?x = "lookup_extensions key"
    have run: "checkFunctions exists rt (Some entries) =
        (Some (fst (forEach (functionCheck exists rt ?x) entries acc)),
         snd (forEach (functionCheck exists rt ?x) entries acc))"
      if "(if no_extensions ?x
           then (case runtimeError rt of Inl e \<Rightarrow> Inl e | Inr msg \<Rightarrow> Inr [msg])
           else Inr []) = Inr acc" for acc
      using nonempty key that
      by (simp add: checkFunctions_def Let_def split: prod.splits)
    show ?thesis
    proof (cases "if no_extensions ?x
           then (case runtimeError rt of Inl e \<Rightarrow> Inl e | Inr msg \<Rightarrow> Inr [msg])
           else Inr []")
      case (Inl e)
      then have "checkFunctions exists rt (Some entries) = (Some entries, Inl e)"
        using nonempty key by (simp add: checkFunctions_def Let_def)
      then show ?thesis by blast
    next
      case (Inr acc)
      from run [OF Inr] show ?thesis by blast
    qed
  qed
qed

lemma checkFunctions_frame:
  "rel_option (list_all2 (\<lambda>a b. b = a \<or> b = normalized_function rt a)) fns
     (fst (checkFunctions exists rt fns))"
proof (cases fns)
  case None
  then show ?thesis by (simp add: checkFunctions_def)
next
  case (Some entries)
  have same: "list_all2 (\<lambda>a b. b = a \<or> b = normalized_function rt a) entries entries"
    by (rule list_all2_same)
  have run: "list_all2 (\<lambda>a b. b = a \<or> b = normalized_function rt a) entries
      (fst (forEach (functionCheck exists rt extensions) entries acc))" for extensions acc
    by (rule forEach_frame) (rule fst_functionCheck)
  from checkFunctions_Some [of entries exists rt] show ?thesis
  proof (elim disjE conjE exE)
    assume "checkFunctions exists rt (Some entries) = (Some entries, Inr [])"
    then show ?thesis using same by (simp add: Some)
  next
    fix e
    assume "checkFunctions exists rt (Some entries) = (Some entries, Inl e)"
    then show ?thesis using same by (simp add: Some)
  next
    fix extensions acc
    assume "checkFunctions exists rt (Some entries) =
         (Some (fst (forEach (functionCheck exists rt extensions) entries acc)),
          snd (forEach (functionCheck exists rt extensions) entries acc))"
    then show ?thesis using run [of extensions acc] by (simp add: Some)
  qed
qed

lemma checkFunctions_done:
  assumes "snd (checkFunctions exists rt fns) = Inr es"
  shows "fst (checkFunctions exists rt fns) = map_option (map (normalized_function rt)) fns"
proof (cases fns)
  case None
  then show ?thesis by (simp add: checkFunctions_def)
next
  case (Some entries)
  have run: "snd (forEach (functionCheck exists rt extensions) entries acc) = Inr es \<Longrightarrow>
      fst (forEach (functionCheck exists rt extensions) entries acc) = map (normalized_function rt) entries"
    for extensions acc
    by (rule forEach_done) (rule fst_functionCheck_done)
  from checkFunctions_Some [of entries exists rt] show ?thesis
  proof (elim disjE conjE exE)
    assume "entries = []" "checkFunctions exists rt (Some entries) = (Some entries, Inr [])"
    then show ?thesis by (simp add: Some)
  next
    fix e
    assume "checkFunctions exists rt (Some entries) = (Some entries, Inl e)"
    then show ?thesis using assms by (simp add: Some)
  next
    fix extensions acc
    assume c: "checkFunctions exists rt (Some entries) =
         (Some (fst (forEach (functionCheck exists rt extensions) entries acc)),
          snd (forEach (functionCheck exists rt extensions) entries acc))"
    then have "snd (forEach (functionCheck exists rt extensions) entries acc) = Inr es"
      using assms by (simp add: Some)
    then have "fst (forEach (functionCheck exists rt extensions) entries acc)
        = map (normalized_function rt) entries"
      by (rule run)
    then show ?thesis using c by (simp add: Some)
  qed
qed

lemma checkContainers_frame:
  "rel_option (rel_option (list_all2 (\<lambda>a b. b = a \<or> b = normalized_container a))) cust
     (fst (checkContainers cust errs))"
proof (cases cust)
  case None
  then show ?thesis by (simp add: checkContainers_def)
next
  case (Some inner)
  show ?thesis
  proof (cases inner)
    case None
    then show ?thesis by (simp add: Some checkContainers_def)
  next
    case (Some entries)
    note inner = this
    show ?thesis
    proof (cases "length entries \<noteq> 0")
      case False
      then show ?thesis by (simp add: \<open>cust = Some inner\<close> inner checkContainers_def)
    next
      case True
      have "fst (checkContainers cust errs) = Some (Some (fst (forEach containerCheck entries errs)))"
        using True by (simp add: \<open>cust = Some inner\<close> inner checkContainers_def split: prod.splits)
      then show ?thesis
        using forEach_frame [of containerCheck normalized_container entries errs]
        by (simp add: \<open>cust = Some inner\<close> inner fst_containerCheck)
    qed
  qed
qed

lemma checkContainers_done:
  assumes "snd (checkContainers cust errs) = Inr es"
  shows "fst (checkContainers cust errs) = map_option (map_option (map normalized_container)) cust"
proof (cases cust)
  case None
  then show ?thesis by (simp add: checkContainers_def)
next
  case (Some inner)
  show ?thesis
  proof (cases inner)
    case None
    then show ?thesis by (simp add: Some checkContainers_def)
  next
    case (Some entries)
    note inner = this
    show ?thesis
    proof (cases "length entries \<noteq> 0")
      case False
      then show ?thesis by (simp add: \<open>cust = Some inner\<close> inner checkContainers_def)
    next
      case True
      let ?run = "forEach containerCheck entries errs"
      have "checkContainers cust errs = (Some (Some (fst ?run)), snd ?run)"
        using True by (simp add: \<open>cust = Some inner\<close> inner checkContainers_def split: prod.splits)
      then show ?thesis
        using assms forEach_done [of containerCheck normalized_container entries errs es]
        by (simp add: \<open>cust = Some inner\<close> inner fst_containerCheck)
    qed
  qed
qed

lemma rel_option_same: "(\<And>x. R x x) \<Longrightarrow> rel_option R x x"
  by (cases x) auto

lemma validateApplications_cases:
  "validateApplications exists p errors = (p', r) \<Longrightarrow>
     (p' = p\<lparr>service_functions := fst (checkFunctions exists (runtime p) (service_functions p))\<rparr>
        \<and> (\<exists>e. r = Inl e \<and> snd (checkFunctions exists (runtime p) (service_functions p)) = Inl e))
     \<or> (\<exists>fe. snd (checkFunctions exists (runtime p) (service_functions p)) = Inr fe
          \<and> p' = p\<lparr>service_functions := fst (checkFunctions exists (runtime p) (service_functions p)),
                    service_custom := fst (checkContainers (service_custom p) fe)\<rparr>
          \<and> ((\<exists>es. r = Inr es) \<longrightarrow> (\<exists>ce. snd (checkContainers (service_custom p) fe) = Inr ce)))"
  by (auto simp: validateApplications_def Let_def split: prod.splits sum.splits)


lemma validate_state:
  "fst (validate exists p) = p
   \<or> (\<exists>errs. fst (validate exists p) = fst (validateApplications exists p errs))"
proof (cases "validateServicePath p"; cases "validateCredentials p"; cases "validateNamespace p None")
  fix u v ns
  assume h: "validateServicePath p = Inr u" "validateCredentials p = Inr v" "validateNamespace p None = Inr ns"
  obtain p' r where run: "validateApplications exists p (Some ns) = (p', r)"
    by (cases "validateApplications exists p (Some ns)")
  have "fst (validate exists p) = p'"
    by (cases r) (simp_all add: validate_def h run)
  then have "fst (validate exists p) = fst (validateApplications exists p (Some ns))"
    by (simp add: run)
  then show ?thesis by blast
qed (simp_all add: validate_def)

lemma frame_all:
  assumes "validateApplications exists p errors = (p', r)"
  shows "p' = p\<lparr>service_functions := service_functions p', service_custom := service_custom p'\<rparr>"
    and "rel_option (list_all2 (\<lambda>a b. b = a \<or> b = normalized_function (runtime p) a))
          (service_functions p) (service_functions p')"
    and "rel_option (rel_option (list_all2 (\<lambda>a b. b = a \<or> b = normalized_container a)))
          (service_custom p) (service_custom p')"
    and "(\<exists>es. r = Inr es) \<longrightarrow>
          service_functions p' = map_option (map (normalized_function (runtime p))) (service_functions p)
          \<and> service_custom p' = map_option (map_option (map normalized_container)) (service_custom p)"
proof -
  let ?F = "checkFunctions exists (runtime p) (service_functions p)"
  let ?A = "p' = p\<lparr>service_functions := fst ?F\<rparr> \<and> (\<exists>e. r = Inl e \<and> snd ?F = Inl e)"
  let ?B = "\<exists>fe. snd ?F = Inr fe
          \<and> p' = p\<lparr>service_functions := fst ?F,
                    service_custom := fst (checkContainers (service_custom p) fe)\<rparr>
          \<and> ((\<exists>es. r = Inr es) \<longrightarrow> (\<exists>ce. snd (checkContainers (service_custom p) fe) = Inr ce))"
  have c: "?A \<or> ?B" using assms by (rule validateApplications_cases)
  have same: "rel_option (rel_option (list_all2 (\<lambda>a b. b = a \<or> b = normalized_container a)))
          (service_custom p) (service_custom p)"
    by (intro rel_option_same list_all2_same)
  have f1: "service_functions p' = fst ?F"
    using c by (elim disjE conjE exE) simp_all
  show "rel_option (list_all2 (\<lambda>a b. b = a \<or> b = normalized_function (runtime p) a))
          (service_functions p) (service_functions p')"
    unfolding f1 by (rule checkFunctions_frame)
  show "p' = p\<lparr>service_functions := service_functions p', service_custom := service_custom p'\<rparr>"
    using c by (elim disjE conjE exE) simp_all
  show "rel_option (rel_option (list_all2 (\<lambda>a b. b = a \<or> b = normalized_container a)))
          (service_custom p) (service_custom p')"
    using c
  proof (elim disjE conjE exE)
    assume "p' = p\<lparr>service_functions := fst ?F\<rparr>"
    then have "service_custom p' = service_custom p" by simp
    then show ?thesis using same by simp
  next
    fix fe
    assume "p' = p\<lparr>service_functions := fst ?F,
                    service_custom := fst (checkContainers (service_custom p) fe)\<rparr>"
    then have "service_custom p' = fst (checkContainers (service_custom p) fe)" by simp
    then show ?thesis using checkContainers_frame [of "service_custom p" fe] by simp
  qed
  show "(\<exists>es. r = Inr es) \<longrightarrow>
          service_functions p' = map_option (map (normalized_function (runtime p))) (service_functions p)
          \<and> service_custom p' = map_option (map_option (map normalized_container)) (service_custom p)"
  proof
    assume ok: "\<exists>es. r = Inr es"
    from c show "service_functions p' = map_option (map (normalized_function (runtime p))) (service_functions p)
          \<and> service_custom p' = map_option (map_option (map normalized_container)) (service_custom p)"
    proof (elim disjE conjE exE)
      fix e
      assume "r = Inl e"
      with ok show ?thesis by simp
    next
      fix fe
      assume fe: "snd ?F = Inr fe"
        and p': "p' = p\<lparr>service_functions := fst ?F,
                    service_custom := fst (checkContainers (service_custom p) fe)\<rparr>"
        and imp: "(\<exists>es. r = Inr es) \<longrightarrow> (\<exists>ce. snd (checkContainers (service_custom p) fe) = Inr ce)"
      from imp ok obtain ce where ce: "snd (checkContainers (service_custom p) fe) = Inr ce" by blast
      have 2: "service_custom p' = fst (checkContainers (service_custom p) fe)" by (simp add: p')
      have a: "service_functions p' = map_option (map (normalized_function (runtime p))) (service_functions p)"
        unfolding f1 using fe by (rule checkFunctions_done)
      have b: "service_custom p' = map_option (map_option (map normalized_container)) (service_custom p)"
        unfolding 2 using ce by (rule checkContainers_done)
      from a b show ?thesis by (rule conjI)
    qed
  qed
qed

lemma defaultEvents_value:
  "obj_get (defaultEvents x) ''events'' =
     (if truthy (obj_get x ''events'') then obj_get x ''events'' else JArr [])"
  by (simp add: defaultEvents_def obj_get_set_prop)

text \<open>
  Claim C9, as amended. \<^verbatim>\<open>validateApplications\<close> changes nothing of the plugin but the
  functions' and the containers' objects, keeps their names and order, and changes an object
  in one way only: \<^verbatim>\<open>events\<close> is set to the empty sequence when it is absent or otherwise
  falsy. When it returns its error list, this has happened to every container and to every
  function whose effective runtime is not golang, and these all have \<^verbatim>\<open>events\<close>; a golang
  function is left as it was. When it throws, this has happened to some of them. \<^verbatim>\<open>validate\<close>
  leaves the plugin as it was or as \<^verbatim>\<open>validateApplications\<close> left it.
\<close>

theorem only_events_are_defaulted:
  assumes "validateApplications exists p errors = (p', r)"
  shows "p' = p\<lparr>service_functions := service_functions p', service_custom := service_custom p'\<rparr>
    \<and> rel_option (list_all2 (\<lambda>a b. b = a \<or> b = normalized_function (runtime p) a))
          (service_functions p) (service_functions p')
    \<and> rel_option (rel_option (list_all2 (\<lambda>a b. b = a \<or> b = normalized_container a)))
          (service_custom p) (service_custom p')
    \<and> ((\<exists>es. r = Inr es) \<longrightarrow>
          service_functions p' = map_option (map (normalized_function (runtime p))) (service_functions p)
          \<and> service_custom p' = map_option (map_option (map normalized_container)) (service_custom p))
    \<and> (truthy (obj_get x ''events'') \<longrightarrow> defaultEvents x = x)
    \<and> (\<not> truthy (obj_get x ''events'') \<longrightarrow> defaultEvents x = set_prop x ''events'' (JArr []))
    \<and> obj_get (defaultEvents x) ''events'' =
          (if truthy (obj_get x ''events'') then obj_get x ''events'' else JArr [])
    \<and> (fst (validate exists p) = p
          \<or> (\<exists>errs. fst (validate exists p) = fst (validateApplications exists p errs)))"
proof (intro conjI)
  show "truthy (obj_get x ''events'') \<longrightarrow> defaultEvents x = x"
    by (simp add: defaultEvents_truthy)
  show "\<not> truthy (obj_get x ''events'') \<longrightarrow> defaultEvents x = set_prop x ''events'' (JArr [])"
    by (simp add: defaultEvents_def)
  show "obj_get (defaultEvents x) ''events'' =
          (if truthy (obj_get x ''events'') then obj_get x ''events'' else JArr [])"
    by (rule defaultEvents_value)
  show "fst (validate exists p) = p
          \<or> (\<exists>errs. fst (validate exists p) = fst (validateApplications exists p errs))"
    by (rule validate_state)
qed (rule frame_all [OF assms])+


lemma sample_run: "validateApplications (\<lambda>h. h = ''handler.js'') sample_before None = (sample_after, Inr [])"
  by code_simp

theorem only_events_are_defaulted_witness:
  "validateApplications (\<lambda>h. h = ''handler.js'') sample_before None = (sample_after, Inr [])
   \<and> service_functions sample_after =
        map_option (map (normalized_function (runtime sample_before))) (service_functions sample_before)
   \<and> service_custom sample_after =
        map_option (map_option (map normalized_container)) (service_custom sample_before)"
proof -
  have ok: "\<exists>es. (Inr [] :: exn + string list) = Inr es" by blast
  note t = only_events_are_defaulted [OF sample_run, THEN conjunct2, THEN conjunct2,
      THEN conjunct2, THEN conjunct1, THEN mp, OF ok]
  have "service_functions sample_after =
        map_option (map (normalized_function (runtime sample_before))) (service_functions sample_before)
      \<and> service_custom sample_after =
        map_option (map_option (map normalized_container)) (service_custom sample_before)"
    by (rule t)
  with sample_run show ?thesis by (rule conjI)
qed

text \<open>
  Against claim C9 as stated: validation succeeds on a service with one golang function that
  has no \<^verbatim>\<open>events\<close>, and the function still has none afterwards.
\<close>

theorem golang_function_keeps_absent_events_counterexample:
  "validate (\<lambda>h. False) golang_plugin = (golang_plugin, Inr ())
   \<and> map_option (map (\<lambda>entry. obj_get (snd entry) ''events'')) (service_functions golang_plugin)
       = Some [JUndefined]"
  by code_simp

section \<open>Runtimes that the table does not hold\<close>

text \<open>
  A function's own runtime for which the lookup finds nothing gets the unsupported-runtime
  error, which names the default runtime and lists the keys of the table; and when the
  binding of \<^verbatim>\<open>extensions\<close> is undefined, the handler check fails whatever the file system
  holds.
\<close>

lemma unrecognized_override_error:
  assumes "truthy (obj_get func ''runtime'')"
    and "to_string (obj_get func ''runtime'') = Inr key"
    and "lookup_extensions key = NoExtensions"
    and "to_string thisRuntime = Inr name"
  shows "runtimeErrors thisRuntime func =
    Inr [''Runtime '' @ name
     @ '' is not supported. Function runtime must be one of the following: node8, node10, node14, python, python3, golang'']"
  using assms by (simp add: runtimeErrors_def runtimeError_def RUNTIMES_EXTENSIONS_def)

lemma no_extensions_handler_fails:
  assumes "to_string (obj_get func ''handler'') = Inr declared"
  shows "handlerErrors exists NoExtensions name func =
    Inr [''Handler file defined for function '' @ name @ '' does not exist ('' @ declared @ '').'']"
proof -
  have "\<exists>e. handlerCheck exists NoExtensions name h = Inl e" for h
    by (cases h) (simp_all add: Let_def)
  then obtain e where "handlerCheck exists NoExtensions name (obj_get func ''handler'') = Inl e"
    by blast
  then show ?thesis
    by (simp add: handlerErrors_def handlerError_def assms)
qed

text \<open>
  Claim C5, where the code departs from it. \<^verbatim>\<open>toString\<close> is no key of the table, but the
  lookup \<^verbatim>\<open>RUNTIMES_EXTENSIONS['toString']\<close> finds the function every object inherits, which is
  truthy: a function whose own runtime is \<^verbatim>\<open>toString\<close> gets no unsupported-runtime error, and
  validation succeeds.
\<close>

theorem inherited_override_is_not_rejected:
  "map_of RUNTIMES_EXTENSIONS ''toString'' = None
   \<and> runtimeErrors (JStr ''node14'')
        [(''handler'', JStr ''handler.handle''), (''runtime'', JStr ''toString'')] = Inr []
   \<and> validate (\<lambda>h. h = ''handler.js'')
        (sample_plugin\<lparr>service_functions := Some
           [(''first'', [(''handler'', JStr ''handler.handle''), (''runtime'', JStr ''toString'')])]\<rparr>) =
       (sample_plugin\<lparr>service_functions := Some
           [(''first'', [(''handler'', JStr ''handler.handle''), (''runtime'', JStr ''toString''),
                        (''events'', JArr [])])]\<rparr>,
        Inr ())"
  by code_simp

text \<open>
  Claim C10, where the code departs from it. \<^verbatim>\<open>constructor\<close> is no key of the table, but
  under the default runtime \<^verbatim>\<open>constructor\<close> the loop runs once over the inherited function,
  with an undefined extension: the handler check passes when \<^verbatim>\<open>handler.undefined\<close> exists,
  and validation succeeds.
\<close>

theorem inherited_default_runtime_probes_undefined:
  "map_of RUNTIMES_EXTENSIONS ''constructor'' = None
   \<and> handlerErrors (\<lambda>h. h = ''handler.undefined'') (lookup_extensions ''constructor'')
        ''first'' [(''handler'', JStr ''handler.handle'')] = Inr []
   \<and> validate (\<lambda>h. h = ''handler.undefined'')
        (sample_plugin\<lparr>runtime := JStr ''constructor'', service_functions := Some
           [(''first'', [(''handler'', JStr ''handler.handle'')])]\<rparr>) =
       (sample_plugin\<lparr>runtime := JStr ''constructor'', service_functions := Some
           [(''first'', [(''handler'', JStr ''handler.handle''), (''events'', JArr [])])]\<rparr>,
        Inr ())"
  by code_simp

text \<open>
  The handler check of a function with its own recognized runtime still probes with the
  default runtime's extensions: under the default \<^verbatim>\<open>node14\<close>, a \<^verbatim>\<open>python3\<close> function whose
  \<^verbatim>\<open>handler.py\<close> exists is reported as missing its handler file.
\<close>

lemma python_override_probes_node_extensions:
  "validate (\<lambda>h. h = ''handler.py'')
        (sample_plugin\<lparr>service_functions := Some
           [(''first'', [(''handler'', JStr ''handler.handle''), (''runtime'', JStr ''python3'')])]\<rparr>) =
       (sample_plugin\<lparr>service_functions := Some
           [(''first'', [(''handler'', JStr ''handler.handle''), (''runtime'', JStr ''python3''),
                        (''events'', JArr [])])]\<rparr>,
        Inl (Rejected [''Handler file defined for function first does not exist (handler.handle).'']))"
  by code_simp

text \<open>
  A handler that is no string and has no text: the \<^verbatim>\<open>catch\<close> of the handler check throws
  when it builds its message, and \<^verbatim>\<open>validate\<close> fails with that TypeError.
\<close>

lemma unprintable_handler_is_thrown:
  "validate (\<lambda>h. False)
        (sample_plugin\<lparr>service_functions := Some
           [(''first'', [(''handler'', JObj [(''toString'', JStr ''x'')])])]\<rparr>) =
       (sample_plugin\<lparr>service_functions := Some
           [(''first'', [(''handler'', JObj [(''toString'', JStr ''x'')])])]\<rparr>,
        Inl (Thrown (TypeError ''Cannot convert object to primitive value'')))"
  by code_simp

end
